theory Spec2Isabelle
  imports Main "HOL-Library.Sublist"
begin

section \<open>Signature verification support: glance/common/signature\_utils.py\<close>

subsection \<open>Values exchanged with the libraries the module calls\<close>

text \<open>
  Byte strings, the opaque request context and property values are strings. A
  \<open>datetime\<close> is a naive UTC instant counted in microseconds, which is the order
  Python compares naive datetimes by.
\<close>

type_synonym bytes = string
type_synonym request_context = string
type_synonym datetime = int

text \<open>The four hash objects stored in \<open>HASH_METHODS\<close>.\<close>

datatype hash_algorithm = SHA224 | SHA256 | SHA384 | SHA512

text \<open>The curve objects listed in \<open>ECC_CURVES\<close>, in the order of the tuple.\<close>

datatype elliptic_curve = SECT571K1 | SECT409K1 | SECT571R1 | SECT409R1 | SECP521R1 | SECP384R1

text \<open>
  The public key interfaces a key type can be registered with, and the keys a
  certificate can carry (``this public key could either be RSAPublicKey,
  DSAPublicKey, or EllipticCurvePublicKey'').
\<close>

datatype key_class = RSAPublicKey | DSAPublicKey | EllipticCurvePublicKey

datatype public_key = RSAKey bytes | DSAKey bytes | ECKey elliptic_curve bytes

fun isinstance :: "public_key \<Rightarrow> key_class \<Rightarrow> bool" where
  "isinstance (RSAKey _) t = (t = RSAPublicKey)"
| "isinstance (DSAKey _) t = (t = DSAPublicKey)"
| "isinstance (ECKey _ _) t = (t = EllipticCurvePublicKey)"

text \<open>
  \<open>padding.MGF1(hash)\<close>, \<open>padding.PSS(mgf, salt_length)\<close> with the sentinel
  \<open>padding.PSS.MAX_LENGTH\<close>, and \<open>ec.ECDSA(hash)\<close>.
\<close>

datatype mgf = MGF1 hash_algorithm

datatype salt_length = MAX_LENGTH | Salt int

datatype padding = PSS mgf salt_length

datatype signature_algorithm = ECDSA hash_algorithm

text \<open>
  The arguments that follow the signature in the three calls of
  \<open>public_key.verifier\<close>.
\<close>

datatype verifier_args =
    With_padding padding hash_algorithm
  | With_signature_algorithm signature_algorithm
  | With_hash hash_algorithm

text \<open>The verification context a key hands back: bound to a key, a signature and the arguments.\<close>

datatype verifier = Verifier public_key bytes verifier_args

text \<open>The castellan object (\<open>cert.format\<close>, \<open>cert.get_encoded()\<close>) and the decoded X.509 certificate.\<close>

record managed_object =
  format :: string
  get_encoded :: bytes

record certificate =
  not_valid_before :: datetime
  not_valid_after :: datetime
  public_key :: public_key

subsection \<open>Exceptions\<close>

text \<open>Exceptions that come out of the interpreter or of a library call.\<close>

datatype py_exception =
    TypeError | ValueError | KeyError | BinasciiError | UnsupportedAlgorithm | OtherException

text \<open>The three raise sites whose message reports an unusable algorithm.\<close>

datatype unsupported =
    Hash_method_name string          \<comment> \<open>``Invalid signature hash method: \%s''\<close>
  | Mask_gen_algorithm_name string   \<comment> \<open>``Invalid mask\_gen\_algorithm: \%s''\<close>
  | Unsupported_on_this_system       \<comment> \<open>``Unable to verify signature since the algorithm is unsupported on this system''\<close>

text \<open>
  One constructor for each message \<open>SignatureVerificationError\<close> is raised with on the
  \<open>get_verifier\<close> path.
\<close>

datatype cause =
    MissingSignatureMetadata             \<comment> \<open>``Required image properties for signature verification do not exist. Cannot verify signature.''\<close>
  | InvalidSignatureEncoding             \<comment> \<open>``The signature data was not properly encoded using base64''\<close>
  | UnsupportedAlgorithmName unsupported
  | UnknownKeyType string                \<comment> \<open>``Invalid signature key type: \%s''\<close>
  | InvalidParameterValue string         \<comment> \<open>``Invalid pss\_salt\_length: \%s''\<close>
  | CertificateRetrievalFailed string    \<comment> \<open>``Unable to retrieve certificate with ID: \%s''\<close>
  | CertificateFormatInvalid string      \<comment> \<open>``Invalid certificate format: \%s''\<close>
  | CertificateFormatNotSupported string \<comment> \<open>``Certificate format not supported: \%s''\<close>
  | CertificateNotYetValid datetime      \<comment> \<open>``Certificate is not valid before: \%s UTC''\<close>
  | CertificateExpired datetime          \<comment> \<open>``Certificate is not valid after: \%s UTC''\<close>
  | KeyTypeMismatch                      \<comment> \<open>``Invalid public key type for signature key type: \%s''\<close>
  | VerifierCreationFailed               \<comment> \<open>``Error occurred while creating the verifier''\<close>

datatype exn = SignatureVerificationError cause | Raised py_exception

subsection \<open>The environment of a call\<close>

text \<open>
  What the module reaches outside itself for: \<open>base64.decode_as_bytes\<close>, the key
  manager's \<open>get\<close>, \<open>x509.load_der_x509_certificate\<close>,
  \<open>datetime.datetime.utcnow\<close>, the backend's \<open>elliptic_curve_supported\<close>, the
  \<open>verifier\<close> method of a public key, and the interpreter's built-in \<open>int\<close>
  applied to a string. A call that raises returns \<open>Inl\<close>; a \<open>verifier\<close> call
  that returns a false value returns \<open>Inr None\<close>; \<open>int\<close> raises nothing but
  \<open>ValueError\<close> on a string, which is \<open>None\<close>. Which strings \<open>int\<close> reads, and
  as what, is left to the environment.
\<close>

record env =
  decode_as_bytes :: "string \<Rightarrow> py_exception + bytes"
  keymgr_get :: "request_context \<Rightarrow> string \<Rightarrow> py_exception + managed_object"
  load_der_x509_certificate :: "bytes \<Rightarrow> py_exception + certificate"
  utcnow :: datetime
  elliptic_curve_supported :: "elliptic_curve \<Rightarrow> bool"
  key_verifier :: "public_key \<Rightarrow> bytes \<Rightarrow> verifier_args \<Rightarrow> py_exception + verifier option"
  py_int :: "string \<Rightarrow> int option"

subsection \<open>Module constants\<close>

definition HASH_METHODS :: "string \<rightharpoonup> hash_algorithm" where
  "HASH_METHODS =
     [''SHA-224'' \<mapsto> SHA224, ''SHA-256'' \<mapsto> SHA256, ''SHA-384'' \<mapsto> SHA384, ''SHA-512'' \<mapsto> SHA512]"

abbreviation RSA_PSS :: string where "RSA_PSS \<equiv> ''RSA-PSS''"
abbreviation DSA :: string where "DSA \<equiv> ''DSA''"

definition ECC_CURVES :: "elliptic_curve list" where
  "ECC_CURVES = [SECT571K1, SECT409K1, SECT571R1, SECT409R1, SECP521R1, SECP384R1]"

abbreviation X_509 :: string where "X_509 \<equiv> ''X.509''"

definition CERTIFICATE_FORMATS :: "string set" where
  "CERTIFICATE_FORMATS = {X_509}"

definition MASK_GEN_ALGORITHMS :: "string \<rightharpoonup> (hash_algorithm \<Rightarrow> mgf)" where
  "MASK_GEN_ALGORITHMS = [''MGF1'' \<mapsto> MGF1]"

abbreviation SIGNATURE :: string where "SIGNATURE \<equiv> ''img_signature''"
abbreviation HASH_METHOD :: string where "HASH_METHOD \<equiv> ''img_signature_hash_method''"
abbreviation KEY_TYPE :: string where "KEY_TYPE \<equiv> ''img_signature_key_type''"
abbreviation CERT_UUID :: string where "CERT_UUID \<equiv> ''img_signature_certificate_uuid''"

abbreviation MASK_GEN_ALG :: string where "MASK_GEN_ALG \<equiv> ''mask_gen_algorithm''"
abbreviation PSS_SALT_LENGTH :: string where "PSS_SALT_LENGTH \<equiv> ''pss_salt_length''"

type_synonym properties = "string \<rightharpoonup> string"

subsection \<open>\<open>str.upper\<close> on ASCII text\<close>

definition upper_char :: "char \<Rightarrow> char" where
  "upper_char c = (let n = (of_char c :: nat) in if 97 \<le> n \<and> n \<le> 122 then char_of (n - 32) else c)"

definition upper :: "string \<Rightarrow> string" where
  "upper s = map upper_char s"

text \<open>The \<open>name\<close> attribute of the curve classes of the cryptography library.\<close>

fun curve_name :: "elliptic_curve \<Rightarrow> string" where
  "curve_name SECT571K1 = ''sect571k1''"
| "curve_name SECT409K1 = ''sect409k1''"
| "curve_name SECT571R1 = ''sect571r1''"
| "curve_name SECT409R1 = ''sect409r1''"
| "curve_name SECP521R1 = ''secp521r1''"
| "curve_name SECP384R1 = ''secp384r1''"

subsection \<open>class SignatureKeyType\<close>

record SignatureKeyType =
  name :: string
  public_key_type :: key_class
  create_verifier :: "bytes \<Rightarrow> hash_algorithm \<Rightarrow> public_key \<Rightarrow> properties \<Rightarrow> exn + verifier option"

text \<open>The class attribute \<open>_REGISTERED_TYPES\<close> is a dictionary; \<open>register\<close> stores into it.\<close>

type_synonym registry = "string \<rightharpoonup> SignatureKeyType"

definition register ::
  "string \<Rightarrow> key_class \<Rightarrow> (bytes \<Rightarrow> hash_algorithm \<Rightarrow> public_key \<Rightarrow> properties \<Rightarrow> exn + verifier option)
     \<Rightarrow> registry \<Rightarrow> registry" where
  "register n t c reg = reg(n \<mapsto> \<lparr>name = n, public_key_type = t, create_verifier = c\<rparr>)"

definition lookup :: "registry \<Rightarrow> string \<Rightarrow> exn + SignatureKeyType" where
  "lookup reg n =
     (case reg n of
        None \<Rightarrow> Inl (SignatureVerificationError (UnknownKeyType n))
      | Some d \<Rightarrow> Inr d)"

subsection \<open>The verifier constructors\<close>

text \<open>
  The constructor \<open>padding.PSS\<close> of the cryptography library checks its salt
  length: anything but \<open>MAX_LENGTH\<close> must be zero or greater, or it raises
  \<open>ValueError\<close>.
\<close>

definition padding_PSS :: "mgf \<Rightarrow> salt_length \<Rightarrow> py_exception + padding" where
  "padding_PSS m sl =
     (case sl of
        MAX_LENGTH \<Rightarrow> Inr (PSS m MAX_LENGTH)
      | Salt i \<Rightarrow> if i < 0 then Inl ValueError else Inr (PSS m (Salt i)))"

text \<open>A library exception leaves the constructor as it is.\<close>

definition call_verifier :: "env \<Rightarrow> public_key \<Rightarrow> bytes \<Rightarrow> verifier_args \<Rightarrow> exn + verifier option" where
  "call_verifier e k s a = (case key_verifier e k s a of Inl x \<Rightarrow> Inl (Raised x) | Inr v \<Rightarrow> Inr v)"

definition create_verifier_for_pss ::
  "env \<Rightarrow> bytes \<Rightarrow> hash_algorithm \<Rightarrow> public_key \<Rightarrow> properties \<Rightarrow> exn + verifier option" where
  "create_verifier_for_pss e signature hash_method pk image_properties =
     (case (case image_properties MASK_GEN_ALG of
              Some mask_gen_algorithm \<Rightarrow>
                (case MASK_GEN_ALGORITHMS mask_gen_algorithm of
                   None \<Rightarrow> Inl (SignatureVerificationError
                                 (UnsupportedAlgorithmName (Mask_gen_algorithm_name mask_gen_algorithm)))
                 | Some build \<Rightarrow> Inr (build hash_method))
            | None \<Rightarrow> Inr (MGF1 hash_method)) of
        Inl x \<Rightarrow> Inl x
      | Inr mgf \<Rightarrow>
          (case (case image_properties PSS_SALT_LENGTH of
                   Some pss_salt_length \<Rightarrow>
                     (case py_int e pss_salt_length of
                        None \<Rightarrow> Inl (SignatureVerificationError (InvalidParameterValue pss_salt_length))
                      | Some i \<Rightarrow> Inr (Salt i))
                 | None \<Rightarrow> Inr MAX_LENGTH) of
             Inl x \<Rightarrow> Inl x
           | Inr salt \<Rightarrow>
               (case padding_PSS mgf salt of
                  Inl x \<Rightarrow> Inl (Raised x)
                | Inr pad \<Rightarrow> call_verifier e pk signature (With_padding pad hash_method))))"

definition create_verifier_for_ecc ::
  "env \<Rightarrow> bytes \<Rightarrow> hash_algorithm \<Rightarrow> public_key \<Rightarrow> properties \<Rightarrow> exn + verifier option" where
  "create_verifier_for_ecc e signature hash_method pk image_properties =
     call_verifier e pk signature (With_signature_algorithm (ECDSA hash_method))"

definition create_verifier_for_dsa ::
  "env \<Rightarrow> bytes \<Rightarrow> hash_algorithm \<Rightarrow> public_key \<Rightarrow> properties \<Rightarrow> exn + verifier option" where
  "create_verifier_for_dsa e signature hash_method pk image_properties =
     call_verifier e pk signature (With_hash hash_method)"

text \<open>
  The registrations the module runs when it is imported: RSA-PSS, DSA, then one
  \<open>ECC_\<close> name for each curve of \<open>ECC_CURVES\<close> that the backend supports.
\<close>

definition register_curve :: "env \<Rightarrow> registry \<Rightarrow> elliptic_curve \<Rightarrow> registry" where
  "register_curve e reg curve =
     (if elliptic_curve_supported e curve
      then register (''ECC_'' @ upper (curve_name curve)) EllipticCurvePublicKey
             (create_verifier_for_ecc e) reg
      else reg)"

definition REGISTERED_TYPES :: "env \<Rightarrow> registry" where
  "REGISTERED_TYPES e =
     foldl (register_curve e)
       (register DSA DSAPublicKey (create_verifier_for_dsa e)
          (register RSA_PSS RSAPublicKey (create_verifier_for_pss e) Map.empty))
       ECC_CURVES"

subsection \<open>Building the verifier\<close>

definition should_create_verifier :: "properties option \<Rightarrow> bool" where
  "should_create_verifier image_properties =
     (case image_properties of
        None \<Rightarrow> False
      | Some m \<Rightarrow> CERT_UUID \<in> dom m \<and> HASH_METHOD \<in> dom m \<and> SIGNATURE \<in> dom m \<and> KEY_TYPE \<in> dom m)"

text \<open>\<open>image_properties[key]\<close>.\<close>

definition getitem :: "properties option \<Rightarrow> string \<Rightarrow> exn + string" where
  "getitem image_properties k =
     (case image_properties of
        None \<Rightarrow> Inl (Raised TypeError)
      | Some m \<Rightarrow> (case m k of None \<Rightarrow> Inl (Raised KeyError) | Some v \<Rightarrow> Inr v))"

definition get_signature :: "env \<Rightarrow> string \<Rightarrow> exn + bytes" where
  "get_signature e signature_data =
     (case decode_as_bytes e signature_data of
        Inr signature \<Rightarrow> Inr signature
      | Inl x \<Rightarrow>
          if x = TypeError \<or> x = BinasciiError
          then Inl (SignatureVerificationError InvalidSignatureEncoding)
          else Inl (Raised x))"

definition get_hash_method :: "string \<Rightarrow> exn + hash_algorithm" where
  "get_hash_method hash_method_name =
     (case HASH_METHODS hash_method_name of
        None \<Rightarrow> Inl (SignatureVerificationError (UnsupportedAlgorithmName (Hash_method_name hash_method_name)))
      | Some h \<Rightarrow> Inr h)"

definition verify_certificate :: "env \<Rightarrow> certificate \<Rightarrow> exn + unit" where
  "verify_certificate e cert =
     (let now = utcnow e in
      if now < not_valid_before cert
      then Inl (SignatureVerificationError (CertificateNotYetValid (not_valid_before cert)))
      else if now > not_valid_after cert
      then Inl (SignatureVerificationError (CertificateExpired (not_valid_after cert)))
      else Inr ())"

text \<open>
  The order of the operations inside one call is kept as a log: each function that
  calls a collaborator or another function of the module records the call just before
  making it, and returns the log with its result.
\<close>

datatype event =
    Check_required_fields
  | Decode_signature string
  | Resolve_hash_method string
  | Lookup_key_type string
  | Keymgr_get request_context string
  | Load_der bytes
  | Verify_certificate certificate
  | Derive_public_key certificate
  | Check_key_type public_key key_class
  | Create_verifier string public_key

type_synonym 'a run = "event list \<times> (exn + 'a)"

definition ret :: "'a \<Rightarrow> 'a run" where
  "ret x = ([], Inr x)"

definition raise :: "exn \<Rightarrow> 'a run" where
  "raise x = ([], Inl x)"

definition lift :: "exn + 'a \<Rightarrow> 'a run" where
  "lift r = ([], r)"

definition logged :: "event \<Rightarrow> 'a run \<Rightarrow> 'a run" where
  "logged ev r = (ev # fst r, snd r)"

definition bind :: "'a run \<Rightarrow> ('a \<Rightarrow> 'b run) \<Rightarrow> 'b run" where
  "bind r f =
     (case snd r of
        Inl x \<Rightarrow> (fst r, Inl x)
      | Inr v \<Rightarrow> (fst r @ fst (f v), snd (f v)))"

definition get_certificate :: "env \<Rightarrow> request_context \<Rightarrow> string \<Rightarrow> certificate run" where
  "get_certificate e ctx signature_certificate_uuid =
     logged (Keymgr_get ctx signature_certificate_uuid)
       (case keymgr_get e ctx signature_certificate_uuid of
          Inl x \<Rightarrow> raise (SignatureVerificationError (CertificateRetrievalFailed signature_certificate_uuid))
        | Inr cert \<Rightarrow>
            if format cert \<notin> CERTIFICATE_FORMATS
            then raise (SignatureVerificationError (CertificateFormatInvalid (format cert)))
            else if format cert = X_509
            then logged (Load_der (get_encoded cert))
                   (case load_der_x509_certificate e (get_encoded cert) of
                      Inl x \<Rightarrow> raise (Raised x)
                    | Inr c \<Rightarrow>
                        logged (Verify_certificate c)
                          (bind (lift (verify_certificate e c)) (\<lambda>_. ret c)))
            else raise (SignatureVerificationError (CertificateFormatNotSupported (format cert))))"

definition get_public_key :: "env \<Rightarrow> request_context \<Rightarrow> string \<Rightarrow> SignatureKeyType \<Rightarrow> public_key run" where
  "get_public_key e ctx signature_certificate_uuid signature_key_type =
     bind (get_certificate e ctx signature_certificate_uuid) (\<lambda>cert.
       logged (Derive_public_key cert)
         (let pk = public_key cert in
          logged (Check_key_type pk (public_key_type signature_key_type))
            (if \<not> isinstance pk (public_key_type signature_key_type)
             then raise (SignatureVerificationError KeyTypeMismatch)
             else ret pk)))"

definition get_verifier :: "env \<Rightarrow> registry \<Rightarrow> request_context \<Rightarrow> properties option \<Rightarrow> verifier run" where
  "get_verifier e reg ctx image_properties =
     logged Check_required_fields
       (if \<not> should_create_verifier image_properties
        then raise (SignatureVerificationError MissingSignatureMetadata)
        else
          bind (lift (getitem image_properties SIGNATURE)) (\<lambda>signature_data.
          logged (Decode_signature signature_data)
            (bind (lift (get_signature e signature_data)) (\<lambda>signature.
          bind (lift (getitem image_properties HASH_METHOD)) (\<lambda>hash_method_name.
          logged (Resolve_hash_method hash_method_name)
            (bind (lift (get_hash_method hash_method_name)) (\<lambda>hash_method.
          bind (lift (getitem image_properties KEY_TYPE)) (\<lambda>key_type_name.
          logged (Lookup_key_type key_type_name)
            (bind (lift (lookup reg key_type_name)) (\<lambda>signature_key_type.
          bind (lift (getitem image_properties CERT_UUID)) (\<lambda>uuid.
          bind (get_public_key e ctx uuid signature_key_type) (\<lambda>pk.
          logged (Create_verifier (name signature_key_type) pk)
            (case create_verifier signature_key_type signature hash_method pk
                    (case image_properties of Some m \<Rightarrow> m | None \<Rightarrow> Map.empty) of
               Inl x \<Rightarrow>
                 if x = Raised UnsupportedAlgorithm
                 then raise (SignatureVerificationError (UnsupportedAlgorithmName Unsupported_on_this_system))
                 else raise x
             | Inr None \<Rightarrow> raise (SignatureVerificationError VerifierCreationFailed)
             | Inr (Some v) \<Rightarrow> ret v)))))))))))))"

subsection \<open>The steps of a call\<close>

text \<open>
  The seven steps the description of \<open>get_verifier\<close> names, the step each logged
  operation belongs to, and the order of the operations of a call that runs to the
  end.
\<close>

datatype step =
    Fields_present | Signature_decode | Hash_resolve | Key_type_resolve
  | Certificate_fetch_validate | Key_type_match | Verifier_construct

fun step_of :: "event \<Rightarrow> step" where
  "step_of Check_required_fields = Fields_present"
| "step_of (Decode_signature _) = Signature_decode"
| "step_of (Resolve_hash_method _) = Hash_resolve"
| "step_of (Lookup_key_type _) = Key_type_resolve"
| "step_of (Keymgr_get _ _) = Certificate_fetch_validate"
| "step_of (Load_der _) = Certificate_fetch_validate"
| "step_of (Verify_certificate _) = Certificate_fetch_validate"
| "step_of (Derive_public_key _) = Key_type_match"
| "step_of (Check_key_type _ _) = Key_type_match"
| "step_of (Create_verifier _ _) = Verifier_construct"

definition full_order :: "step list" where
  "full_order =
     [Fields_present, Signature_decode, Hash_resolve, Key_type_resolve,
      Certificate_fetch_validate, Certificate_fetch_validate, Certificate_fetch_validate,
      Key_type_match, Key_type_match, Verifier_construct]"

subsection \<open>The table the module builds\<close>

text \<open>Every entry of the table the module builds is one of the three registrations.\<close>

definition module_entry :: "env \<Rightarrow> string \<Rightarrow> SignatureKeyType \<Rightarrow> bool" where
  "module_entry e n d \<longleftrightarrow>
     d = \<lparr>name = RSA_PSS, public_key_type = RSAPublicKey, create_verifier = create_verifier_for_pss e\<rparr> \<and> n = RSA_PSS
   \<or> d = \<lparr>name = DSA, public_key_type = DSAPublicKey, create_verifier = create_verifier_for_dsa e\<rparr> \<and> n = DSA
   \<or> d = \<lparr>name = n, public_key_type = EllipticCurvePublicKey, create_verifier = create_verifier_for_ecc e\<rparr>"

subsection \<open>A concrete environment\<close>

text \<open>
  One environment on which the functions can be run: the key manager knows the
  certificate \<open>cert-1\<close>, valid from instant 10 to instant 20 and carrying an RSA key;
  the clock reads 15; the backend supports two of the six curves and builds a
  verifier for every request; \<open>int\<close> reads the three numerals used below (64, +64
  and -1) and refuses every other string.
\<close>

definition example_certificate :: certificate where
  "example_certificate = \<lparr>not_valid_before = 10, not_valid_after = 20, public_key = RSAKey ''k''\<rparr>"

definition example_env :: env where
  "example_env =
     \<lparr>decode_as_bytes = (\<lambda>s. if s = ''c2ln'' then Inr ''sig'' else Inl BinasciiError),
      keymgr_get = (\<lambda>c u. if u = ''cert-1'' then Inr \<lparr>format = X_509, get_encoded = ''der''\<rparr>
                           else Inl OtherException),
      load_der_x509_certificate = (\<lambda>b. if b = ''der'' then Inr example_certificate else Inl ValueError),
      utcnow = 15,
      elliptic_curve_supported = (\<lambda>c. c = SECP521R1 \<or> c = SECP384R1),
      key_verifier = (\<lambda>k s a. Inr (Some (Verifier k s a))),
      py_int = (\<lambda>s. if s = ''64'' \<or> s = ''+64'' then Some 64
                    else if s = ''-1'' then Some (- 1) else None)\<rparr>"

definition example_properties :: properties where
  "example_properties =
     [SIGNATURE \<mapsto> ''c2ln'', HASH_METHOD \<mapsto> ''SHA-256'', KEY_TYPE \<mapsto> RSA_PSS, CERT_UUID \<mapsto> ''cert-1'']"

text \<open>A certificate whose validity window is empty: it starts after it has ended.\<close>

definition inverted_certificate :: certificate where
  "inverted_certificate = \<lparr>not_valid_before = 10, not_valid_after = 5, public_key = RSAKey ''k''\<rparr>"

text \<open>The same certificate carrying a DSA key, and the environment that serves it.\<close>

definition dsa_certificate :: certificate where
  "dsa_certificate = \<lparr>not_valid_before = 10, not_valid_after = 20, public_key = DSAKey ''k''\<rparr>"

definition dsa_env :: env where
  "dsa_env = example_env\<lparr>load_der_x509_certificate := (\<lambda>b. Inr dsa_certificate)\<rparr>"

section \<open>Properties\<close>

subsection \<open>Evaluating the registrations of the module\<close>

lemma upper_curve_name:
  "upper (curve_name SECT571K1) = ''SECT571K1''"
  "upper (curve_name SECT409K1) = ''SECT409K1''"
  "upper (curve_name SECT571R1) = ''SECT571R1''"
  "upper (curve_name SECT409R1) = ''SECT409R1''"
  "upper (curve_name SECP521R1) = ''SECP521R1''"
  "upper (curve_name SECP384R1) = ''SECP384R1''"
  by code_simp+

lemma example_registry_rsa:
  "REGISTERED_TYPES example_env RSA_PSS =
     Some \<lparr>name = RSA_PSS, public_key_type = RSAPublicKey, create_verifier = create_verifier_for_pss example_env\<rparr>"
  by (simp add: REGISTERED_TYPES_def ECC_CURVES_def register_curve_def register_def example_env_def upper_curve_name del: curve_name.simps)

lemma example_registry_unknown:
  "REGISTERED_TYPES example_env ''ECC_SECT571K1'' = None"
  by (simp add: REGISTERED_TYPES_def ECC_CURVES_def register_curve_def register_def example_env_def upper_curve_name del: curve_name.simps)

subsection \<open>The calls unfolded\<close>

lemmas run_defs = ret_def raise_def lift_def logged_def bind_def

lemma get_certificate_cases:
  "get_certificate e ctx u =
     (case keymgr_get e ctx u of
        Inl x \<Rightarrow> ([Keymgr_get ctx u], Inl (SignatureVerificationError (CertificateRetrievalFailed u)))
      | Inr mo \<Rightarrow>
          if format mo \<noteq> X_509
          then ([Keymgr_get ctx u], Inl (SignatureVerificationError (CertificateFormatInvalid (format mo))))
          else (case load_der_x509_certificate e (get_encoded mo) of
                  Inl x \<Rightarrow> ([Keymgr_get ctx u, Load_der (get_encoded mo)], Inl (Raised x))
                | Inr c \<Rightarrow>
                    ([Keymgr_get ctx u, Load_der (get_encoded mo), Verify_certificate c],
                     case verify_certificate e c of Inl x \<Rightarrow> Inl x | Inr _ \<Rightarrow> Inr c)))"
  by (simp add: get_certificate_def run_defs CERTIFICATE_FORMATS_def split: sum.splits)

lemma get_certificate_Inr:
  assumes "get_certificate e ctx u = (tr, Inr c)"
  shows "verify_certificate e c = Inr () \<and>
         (\<exists>mo. keymgr_get e ctx u = Inr mo \<and> format mo = X_509 \<and>
               load_der_x509_certificate e (get_encoded mo) = Inr c \<and>
               tr = [Keymgr_get ctx u, Load_der (get_encoded mo), Verify_certificate c])"
  using assms unfolding get_certificate_cases
  by (auto split: sum.splits if_splits)

lemma get_public_key_cases:
  "get_public_key e ctx u d =
     (case snd (get_certificate e ctx u) of
        Inl x \<Rightarrow> (fst (get_certificate e ctx u), Inl x)
      | Inr c \<Rightarrow>
          (fst (get_certificate e ctx u) @
             [Derive_public_key c, Check_key_type (public_key c) (public_key_type d)],
           if isinstance (public_key c) (public_key_type d) then Inr (public_key c)
           else Inl (SignatureVerificationError KeyTypeMismatch)))"
  by (simp add: get_public_key_def run_defs Let_def split: sum.splits)

lemma get_verifier_absent:
  "\<not> should_create_verifier p \<Longrightarrow>
   get_verifier e reg ctx p = ([Check_required_fields], Inl (SignatureVerificationError MissingSignatureMetadata))"
  by (simp add: get_verifier_def run_defs)

lemma get_verifier_present:
  assumes "m SIGNATURE = Some sd" "m HASH_METHOD = Some hn" "m KEY_TYPE = Some kn" "m CERT_UUID = Some u"
  shows "get_verifier e reg ctx (Some m) =
     (case get_signature e sd of
        Inl x \<Rightarrow> ([Check_required_fields, Decode_signature sd], Inl x)
      | Inr s \<Rightarrow>
     (case get_hash_method hn of
        Inl x \<Rightarrow> ([Check_required_fields, Decode_signature sd, Resolve_hash_method hn], Inl x)
      | Inr h \<Rightarrow>
     (case lookup reg kn of
        Inl x \<Rightarrow> ([Check_required_fields, Decode_signature sd, Resolve_hash_method hn, Lookup_key_type kn], Inl x)
      | Inr d \<Rightarrow>
     (case snd (get_public_key e ctx u d) of
        Inl x \<Rightarrow> ([Check_required_fields, Decode_signature sd, Resolve_hash_method hn, Lookup_key_type kn]
                    @ fst (get_public_key e ctx u d), Inl x)
      | Inr pk \<Rightarrow> ([Check_required_fields, Decode_signature sd, Resolve_hash_method hn, Lookup_key_type kn]
                    @ fst (get_public_key e ctx u d) @ [Create_verifier (name d) pk],
                    (case create_verifier d s h pk m of
                       Inl x \<Rightarrow>
                         if x = Raised UnsupportedAlgorithm
                         then Inl (SignatureVerificationError (UnsupportedAlgorithmName Unsupported_on_this_system))
                         else Inl x
                     | Inr None \<Rightarrow> Inl (SignatureVerificationError VerifierCreationFailed)
                     | Inr (Some v) \<Rightarrow> Inr v))))))"
  using assms
  by (simp add: get_verifier_def should_create_verifier_def getitem_def run_defs dom_def
           split: sum.splits option.splits)

lemma get_signature_not_missing:
  "get_signature e sd \<noteq> Inl (SignatureVerificationError MissingSignatureMetadata)"
  by (simp add: get_signature_def split: sum.splits)

lemma get_hash_method_not_missing:
  "get_hash_method hn \<noteq> Inl (SignatureVerificationError MissingSignatureMetadata)"
  by (simp add: get_hash_method_def split: option.splits)

lemma lookup_not_missing:
  "lookup reg kn \<noteq> Inl (SignatureVerificationError MissingSignatureMetadata)"
  by (simp add: lookup_def split: option.splits)

lemma verify_certificate_not_missing:
  "verify_certificate e c \<noteq> Inl (SignatureVerificationError MissingSignatureMetadata)"
  by (simp add: verify_certificate_def Let_def)

lemma get_certificate_not_missing:
  "snd (get_certificate e ctx u) \<noteq> Inl (SignatureVerificationError MissingSignatureMetadata)"
  using verify_certificate_not_missing [of e]
  by (auto simp: get_certificate_cases split: sum.splits)

lemma get_public_key_not_missing:
  "snd (get_public_key e ctx u d) \<noteq> Inl (SignatureVerificationError MissingSignatureMetadata)"
  using get_certificate_not_missing [of e ctx u]
  by (auto simp: get_public_key_cases split: sum.splits)

lemma call_verifier_not_signature_error:
  "call_verifier e k s a \<noteq> Inl (SignatureVerificationError c)"
  by (simp add: call_verifier_def split: sum.splits)

lemma create_verifier_for_pss_not_missing:
  "create_verifier_for_pss e s h k m \<noteq> Inl (SignatureVerificationError MissingSignatureMetadata)"
  by (auto simp: create_verifier_for_pss_def call_verifier_not_signature_error
           split: option.splits sum.splits)

lemma foldl_register_curve_entries:
  "(\<And>n d. reg n = Some d \<Longrightarrow> module_entry e n d) \<Longrightarrow>
   foldl (register_curve e) reg cs n = Some d \<Longrightarrow> module_entry e n d"
proof (induction cs arbitrary: reg)
  case Nil
  then show ?case by simp
next
  case (Cons c cs)
  have "\<And>n d. register_curve e reg c n = Some d \<Longrightarrow> module_entry e n d"
    using Cons.prems(1)
    by (auto simp: register_curve_def register_def module_entry_def split: if_splits)
  with Cons.IH [of "register_curve e reg c"] Cons.prems(2) show ?case by simp
qed

lemma REGISTERED_TYPES_entries:
  "REGISTERED_TYPES e n = Some d \<Longrightarrow> module_entry e n d"
  unfolding REGISTERED_TYPES_def
  by (erule foldl_register_curve_entries [rotated])
     (auto simp: register_def module_entry_def split: if_splits)

lemma REGISTERED_TYPES_not_missing:
  assumes "REGISTERED_TYPES e n = Some d"
  shows "create_verifier d s h k m \<noteq> Inl (SignatureVerificationError MissingSignatureMetadata)"
  using REGISTERED_TYPES_entries [OF assms]
  by (auto simp: module_entry_def create_verifier_for_pss_not_missing create_verifier_for_dsa_def
        create_verifier_for_ecc_def call_verifier_not_signature_error)

subsection \<open>The log of a call\<close>

lemma get_certificate_events:
  "ev \<in> set (fst (get_certificate e ctx u)) \<Longrightarrow> step_of ev = Certificate_fetch_validate"
  by (auto simp: get_certificate_cases split: sum.splits if_splits)

lemma get_certificate_steps:
  "snd (get_certificate e ctx u) = Inr c \<Longrightarrow>
   map step_of (fst (get_certificate e ctx u)) =
     [Certificate_fetch_validate, Certificate_fetch_validate, Certificate_fetch_validate]"
  "prefix (map step_of (fst (get_certificate e ctx u)))
     [Certificate_fetch_validate, Certificate_fetch_validate, Certificate_fetch_validate]"
  by (auto simp: get_certificate_cases split: sum.splits if_splits)

lemma get_certificate_snd_Inr:
  assumes "snd (get_certificate e ctx u) = Inr c"
  shows "verify_certificate e c = Inr () \<and>
         (\<exists>mo. keymgr_get e ctx u = Inr mo \<and> format mo = X_509 \<and>
               load_der_x509_certificate e (get_encoded mo) = Inr c \<and>
               fst (get_certificate e ctx u) =
                 [Keymgr_get ctx u, Load_der (get_encoded mo), Verify_certificate c])"
  using get_certificate_Inr [of e ctx u "fst (get_certificate e ctx u)" c] assms
  by (simp add: prod_eq_iff)

lemma get_public_key_derived:
  assumes "Derive_public_key c \<in> set (fst (get_public_key e ctx u d))"
  shows "snd (get_certificate e ctx u) = Inr c \<and>
         fst (get_public_key e ctx u d) =
           fst (get_certificate e ctx u) @
             [Derive_public_key c, Check_key_type (public_key c) (public_key_type d)]"
  using assms get_certificate_events [of "Derive_public_key c" e ctx u]
  by (auto simp: get_public_key_cases split: sum.splits)

lemma get_public_key_Inr:
  assumes "snd (get_public_key e ctx u d) = Inr pk"
  shows "\<exists>c. snd (get_certificate e ctx u) = Inr c \<and> pk = public_key c \<and>
             isinstance pk (public_key_type d) \<and>
             fst (get_public_key e ctx u d) =
               fst (get_certificate e ctx u) @
                 [Derive_public_key c, Check_key_type (public_key c) (public_key_type d)]"
  using assms
  by (auto simp: get_public_key_cases split: sum.splits if_splits)

lemma get_public_key_no_constructor:
  "Create_verifier n k \<notin> set (fst (get_public_key e ctx u d))"
  using get_certificate_events [of "Create_verifier n k" e ctx u]
  by (auto simp: get_public_key_cases split: sum.splits)

text \<open>The log of a call has one of six shapes.\<close>

lemma get_verifier_shape:
  "fst (get_verifier e reg ctx p) = [Check_required_fields] \<or>
   (\<exists>sd. fst (get_verifier e reg ctx p) = [Check_required_fields, Decode_signature sd]) \<or>
   (\<exists>sd hn. fst (get_verifier e reg ctx p) =
       [Check_required_fields, Decode_signature sd, Resolve_hash_method hn]) \<or>
   (\<exists>sd hn kn. fst (get_verifier e reg ctx p) =
       [Check_required_fields, Decode_signature sd, Resolve_hash_method hn, Lookup_key_type kn]) \<or>
   (\<exists>m sd hn kn u s h d x.
       p = Some m \<and> m SIGNATURE = Some sd \<and> m HASH_METHOD = Some hn \<and> m KEY_TYPE = Some kn \<and>
       m CERT_UUID = Some u \<and> get_signature e sd = Inr s \<and> get_hash_method hn = Inr h \<and>
       lookup reg kn = Inr d \<and> snd (get_public_key e ctx u d) = Inl x \<and>
       fst (get_verifier e reg ctx p) =
         [Check_required_fields, Decode_signature sd, Resolve_hash_method hn, Lookup_key_type kn]
           @ fst (get_public_key e ctx u d)) \<or>
   (\<exists>m sd hn kn u s h d pk.
       p = Some m \<and> m SIGNATURE = Some sd \<and> m HASH_METHOD = Some hn \<and> m KEY_TYPE = Some kn \<and>
       m CERT_UUID = Some u \<and> get_signature e sd = Inr s \<and> get_hash_method hn = Inr h \<and>
       lookup reg kn = Inr d \<and> snd (get_public_key e ctx u d) = Inr pk \<and>
       fst (get_verifier e reg ctx p) =
         [Check_required_fields, Decode_signature sd, Resolve_hash_method hn, Lookup_key_type kn]
           @ fst (get_public_key e ctx u d) @ [Create_verifier (name d) pk])"
proof (cases "should_create_verifier p")
  case False
  then show ?thesis by (simp add: get_verifier_absent)
next
  case True
  then obtain m sd hn kn u where p: "p = Some m" and
    f: "m SIGNATURE = Some sd" "m HASH_METHOD = Some hn" "m KEY_TYPE = Some kn" "m CERT_UUID = Some u"
    by (auto simp: should_create_verifier_def dom_def split: option.splits)
  show ?thesis
  proof (cases "get_signature e sd")
    case (Inl x)
    then show ?thesis unfolding p get_verifier_present [OF f] by simp
  next
    case s: (Inr s)
    show ?thesis
    proof (cases "get_hash_method hn")
      case (Inl x)
      then show ?thesis unfolding p get_verifier_present [OF f] using s by simp
    next
      case h: (Inr h)
      show ?thesis
      proof (cases "lookup reg kn")
        case (Inl x)
        then show ?thesis unfolding p get_verifier_present [OF f] using s h by simp
      next
        case d: (Inr d)
        show ?thesis
        proof (cases "snd (get_public_key e ctx u d)")
          case (Inl x)
          then have "fst (get_verifier e reg ctx p) =
             [Check_required_fields, Decode_signature sd, Resolve_hash_method hn, Lookup_key_type kn]
               @ fst (get_public_key e ctx u d)"
            unfolding p get_verifier_present [OF f] using s h d by simp
          with p f s h d Inl show ?thesis by blast
        next
          case (Inr pk)
          then have "fst (get_verifier e reg ctx p) =
             [Check_required_fields, Decode_signature sd, Resolve_hash_method hn, Lookup_key_type kn]
               @ fst (get_public_key e ctx u d) @ [Create_verifier (name d) pk]"
            unfolding p get_verifier_present [OF f] using s h d by simp
          with p f s h d Inr show ?thesis by blast
        qed
      qed
    qed
  qed
qed

lemma get_verifier_cases:
  obtains
    (fields) "fst (get_verifier e reg ctx p) = [Check_required_fields]"
  | (decode) sd where "fst (get_verifier e reg ctx p) = [Check_required_fields, Decode_signature sd]"
  | (hash) sd hn where
      "fst (get_verifier e reg ctx p) =
         [Check_required_fields, Decode_signature sd, Resolve_hash_method hn]"
  | (key_type) sd hn kn where
      "fst (get_verifier e reg ctx p) =
         [Check_required_fields, Decode_signature sd, Resolve_hash_method hn, Lookup_key_type kn]"
  | (certificate) m sd hn kn u s h d x where
      "p = Some m" "m SIGNATURE = Some sd" "m HASH_METHOD = Some hn" "m KEY_TYPE = Some kn"
      "m CERT_UUID = Some u" "get_signature e sd = Inr s" "get_hash_method hn = Inr h"
      "lookup reg kn = Inr d" "snd (get_public_key e ctx u d) = Inl x"
      "fst (get_verifier e reg ctx p) =
         [Check_required_fields, Decode_signature sd, Resolve_hash_method hn, Lookup_key_type kn]
           @ fst (get_public_key e ctx u d)"
  | (construct) m sd hn kn u s h d pk where
      "p = Some m" "m SIGNATURE = Some sd" "m HASH_METHOD = Some hn" "m KEY_TYPE = Some kn"
      "m CERT_UUID = Some u" "get_signature e sd = Inr s" "get_hash_method hn = Inr h"
      "lookup reg kn = Inr d" "snd (get_public_key e ctx u d) = Inr pk"
      "fst (get_verifier e reg ctx p) =
         [Check_required_fields, Decode_signature sd, Resolve_hash_method hn, Lookup_key_type kn]
           @ fst (get_public_key e ctx u d) @ [Create_verifier (name d) pk]"
  using get_verifier_shape [of e reg ctx p] by (elim disjE exE conjE) blast+

lemma get_verifier_derived:
  assumes "Derive_public_key c \<in> set (fst (get_verifier e reg ctx p))"
  shows "\<exists>u (d :: SignatureKeyType) pre post. snd (get_certificate e ctx u) = Inr c \<and>
           fst (get_verifier e reg ctx p) =
             pre @ fst (get_certificate e ctx u) @
               Derive_public_key c # Check_key_type (public_key c) (public_key_type d) # post"
proof (cases rule: get_verifier_cases [of e reg ctx p])
  case (certificate m sd hn kn u s h d x)
  with assms have "Derive_public_key c \<in> set (fst (get_public_key e ctx u d))" by simp
  from get_public_key_derived [OF this] certificate(10)
  have r: "snd (get_certificate e ctx u) = Inr c"
    and t: "fst (get_verifier e reg ctx p) =
          [Check_required_fields, Decode_signature sd, Resolve_hash_method hn, Lookup_key_type kn] @
          fst (get_certificate e ctx u) @
          Derive_public_key c # Check_key_type (public_key c) (public_key_type d) # []"
    by simp_all
  show ?thesis
  proof (intro exI conjI)
    show "snd (get_certificate e ctx u) = Inr c" by (rule r)
    show "fst (get_verifier e reg ctx p) =
          [Check_required_fields, Decode_signature sd, Resolve_hash_method hn, Lookup_key_type kn] @
          fst (get_certificate e ctx u) @
          Derive_public_key c # Check_key_type (public_key c) (public_key_type d) # []"
      by (rule t)
  qed
next
  case (construct m sd hn kn u s h d pk)
  with assms have "Derive_public_key c \<in> set (fst (get_public_key e ctx u d))" by simp
  from get_public_key_derived [OF this] construct(10)
  have r: "snd (get_certificate e ctx u) = Inr c"
    and t: "fst (get_verifier e reg ctx p) =
          [Check_required_fields, Decode_signature sd, Resolve_hash_method hn, Lookup_key_type kn] @
          fst (get_certificate e ctx u) @
          Derive_public_key c # Check_key_type (public_key c) (public_key_type d) # [Create_verifier (name d) pk]"
    by simp_all
  show ?thesis
  proof (intro exI conjI)
    show "snd (get_certificate e ctx u) = Inr c" by (rule r)
    show "fst (get_verifier e reg ctx p) =
          [Check_required_fields, Decode_signature sd, Resolve_hash_method hn, Lookup_key_type kn] @
          fst (get_certificate e ctx u) @
          Derive_public_key c # Check_key_type (public_key c) (public_key_type d) # [Create_verifier (name d) pk]"
      by (rule t)
  qed
qed (use assms in simp_all)

lemma get_verifier_constructed:
  assumes "Create_verifier n k \<in> set (fst (get_verifier e reg ctx p))"
  shows "\<exists>m sd hn kn u d.
           p = Some m \<and> m KEY_TYPE = Some kn \<and> m CERT_UUID = Some u \<and>
           lookup reg kn = Inr d \<and> n = name d \<and> snd (get_public_key e ctx u d) = Inr k \<and>
           fst (get_verifier e reg ctx p) =
             [Check_required_fields, Decode_signature sd, Resolve_hash_method hn, Lookup_key_type kn]
               @ fst (get_public_key e ctx u d) @ [Create_verifier (name d) k]"
proof (cases rule: get_verifier_cases [of e reg ctx p])
  case (certificate m sd hn kn u s h d x)
  with assms get_public_key_no_constructor [of n k e ctx u d] show ?thesis by simp
next
  case (construct m sd hn kn u s h d pk)
  with assms get_public_key_no_constructor [of n k e ctx u d]
  have "n = name d" "k = pk" by auto
  with construct show ?thesis by blast
qed (use assms in simp_all)

lemma get_public_key_steps:
  "prefix (map step_of (fst (get_public_key e ctx u d)))
     [Certificate_fetch_validate, Certificate_fetch_validate, Certificate_fetch_validate,
      Key_type_match, Key_type_match]"
  "snd (get_public_key e ctx u d) = Inr pk \<Longrightarrow>
   map step_of (fst (get_public_key e ctx u d)) =
     [Certificate_fetch_validate, Certificate_fetch_validate, Certificate_fetch_validate,
      Key_type_match, Key_type_match]"
proof -
  show "prefix (map step_of (fst (get_public_key e ctx u d)))
     [Certificate_fetch_validate, Certificate_fetch_validate, Certificate_fetch_validate,
      Key_type_match, Key_type_match]"
  proof (cases "snd (get_certificate e ctx u)")
    case (Inl x)
    from get_certificate_steps(2) [of e ctx u]
    have "prefix (map step_of (fst (get_certificate e ctx u)))
            ([Certificate_fetch_validate, Certificate_fetch_validate, Certificate_fetch_validate] @
             [Key_type_match, Key_type_match])"
      by (rule prefix_prefix)
    with Inl show ?thesis
      by (simp add: get_public_key_cases)
  next
    case (Inr c)
    with get_certificate_steps(1) [OF Inr] show ?thesis
      by (simp add: get_public_key_cases)
  qed
  assume "snd (get_public_key e ctx u d) = Inr pk"
  from get_public_key_Inr [OF this] obtain c where
    r: "snd (get_certificate e ctx u) = Inr c" and
    t: "fst (get_public_key e ctx u d) =
               fst (get_certificate e ctx u) @
                 [Derive_public_key c, Check_key_type (public_key c) (public_key_type d)]"
    by blast
  from get_certificate_steps(1) [OF r] show "map step_of (fst (get_public_key e ctx u d)) =
     [Certificate_fetch_validate, Certificate_fetch_validate, Certificate_fetch_validate,
      Key_type_match, Key_type_match]"
    unfolding t by simp
qed

lemma get_verifier_steps_prefix:
  "prefix (map step_of (fst (get_verifier e reg ctx p))) full_order"
proof (cases rule: get_verifier_cases [of e reg ctx p])
  case (certificate m sd hn kn u s h d x)
  from get_public_key_steps(1) [of e ctx u d]
  have "prefix (map step_of (fst (get_public_key e ctx u d)))
          ([Certificate_fetch_validate, Certificate_fetch_validate, Certificate_fetch_validate,
            Key_type_match, Key_type_match] @ [Verifier_construct])"
    by (rule prefix_prefix)
  with certificate show ?thesis
    by (simp add: full_order_def)
next
  case (construct m sd hn kn u s h d pk)
  with get_public_key_steps(2) [OF construct(9)] show ?thesis
    by (simp add: full_order_def)
qed (simp_all add: full_order_def)

lemma get_verifier_Inr:
  assumes "snd (get_verifier e reg ctx p) = Inr v"
  shows "map step_of (fst (get_verifier e reg ctx p)) = full_order"
proof -
  have "should_create_verifier p"
  proof (rule ccontr)
    assume "\<not> should_create_verifier p"
    from get_verifier_absent [OF this, of e reg ctx] assms show False by simp
  qed
  then obtain m sd hn kn u where p: "p = Some m" and
    f: "m SIGNATURE = Some sd" "m HASH_METHOD = Some hn" "m KEY_TYPE = Some kn" "m CERT_UUID = Some u"
    by (auto simp: should_create_verifier_def dom_def split: option.splits)
  from assms obtain d pk where
    k: "snd (get_public_key e ctx u d) = Inr pk" and
    t: "fst (get_verifier e reg ctx p) =
          [Check_required_fields, Decode_signature sd, Resolve_hash_method hn, Lookup_key_type kn]
            @ fst (get_public_key e ctx u d) @ [Create_verifier (name d) pk]"
    unfolding p get_verifier_present [OF f]
    by (auto split: sum.splits)
  from get_public_key_steps(2) [OF k] show ?thesis
    unfolding t by (simp add: full_order_def)
qed

lemma get_verifier_keymgr:
  assumes "Keymgr_get c u \<in> set (fst (get_verifier e reg ctx p))"
  shows "c = ctx \<and>
         (\<exists>m sd s hn h kn d. p = Some m \<and> m SIGNATURE = Some sd \<and> get_signature e sd = Inr s \<and>
            m HASH_METHOD = Some hn \<and> get_hash_method hn = Inr h \<and>
            m KEY_TYPE = Some kn \<and> lookup reg kn = Inr d \<and> m CERT_UUID = Some u)"
proof -
  have k: "Keymgr_get c u \<in> set (fst (get_public_key e ctx u' d)) \<Longrightarrow> c = ctx \<and> u = u'" for u' d
    by (auto simp: get_public_key_cases get_certificate_cases split: sum.splits if_splits)
  show ?thesis
  proof (cases rule: get_verifier_cases [of e reg ctx p])
    case (certificate m sd hn kn u' s h d x)
    with assms have "Keymgr_get c u \<in> set (fst (get_public_key e ctx u' d))" by simp
    from k [OF this] certificate show ?thesis by blast
  next
    case (construct m sd hn kn u' s h d pk)
    with assms have "Keymgr_get c u \<in> set (fst (get_public_key e ctx u' d))" by simp
    from k [OF this] construct show ?thesis by blast
  qed (use assms in simp_all)
qed

subsection \<open>Two runs in the concrete environment\<close>

lemma verify_certificate_ok_iff:
  "verify_certificate e c = Inr () \<longleftrightarrow> not_valid_before c \<le> utcnow e \<and> utcnow e \<le> not_valid_after c"
  by (auto simp: verify_certificate_def Let_def)

lemma REGISTERED_TYPES_rsa_pss:
  "REGISTERED_TYPES e RSA_PSS =
     Some \<lparr>name = RSA_PSS, public_key_type = RSAPublicKey, create_verifier = create_verifier_for_pss e\<rparr>"
  by (simp add: REGISTERED_TYPES_def ECC_CURVES_def register_curve_def register_def upper_curve_name
           del: curve_name.simps)

lemma example_get_certificate:
  "get_certificate example_env ''ctx'' ''cert-1'' =
     ([Keymgr_get ''ctx'' ''cert-1'', Load_der ''der'', Verify_certificate example_certificate],
      Inr example_certificate)"
  by (simp add: get_certificate_cases example_env_def verify_certificate_def example_certificate_def)

lemma example_run:
  "get_verifier example_env (REGISTERED_TYPES example_env) ''ctx'' (Some example_properties) =
     ([Check_required_fields, Decode_signature ''c2ln'', Resolve_hash_method ''SHA-256'',
       Lookup_key_type RSA_PSS, Keymgr_get ''ctx'' ''cert-1'', Load_der ''der'',
       Verify_certificate example_certificate, Derive_public_key example_certificate,
       Check_key_type (RSAKey ''k'') RSAPublicKey, Create_verifier RSA_PSS (RSAKey ''k'')],
      Inr (Verifier (RSAKey ''k'') ''sig'' (With_padding (PSS (MGF1 SHA256) MAX_LENGTH) SHA256)))"
proof -
  have f: "example_properties SIGNATURE = Some ''c2ln''" "example_properties HASH_METHOD = Some ''SHA-256''"
    "example_properties KEY_TYPE = Some RSA_PSS" "example_properties CERT_UUID = Some ''cert-1''"
    by (simp_all add: example_properties_def)
  have s: "get_signature example_env ''c2ln'' = Inr ''sig''"
    by (simp add: get_signature_def example_env_def)
  have h: "get_hash_method ''SHA-256'' = Inr SHA256"
    by (simp add: get_hash_method_def HASH_METHODS_def)
  have l: "lookup (REGISTERED_TYPES example_env) RSA_PSS =
      Inr \<lparr>name = RSA_PSS, public_key_type = RSAPublicKey,
            create_verifier = create_verifier_for_pss example_env\<rparr>"
    by (simp add: lookup_def REGISTERED_TYPES_rsa_pss)
  have k: "get_public_key example_env ''ctx'' ''cert-1''
             \<lparr>name = RSA_PSS, public_key_type = RSAPublicKey,
              create_verifier = create_verifier_for_pss example_env\<rparr> =
           ([Keymgr_get ''ctx'' ''cert-1'', Load_der ''der'', Verify_certificate example_certificate,
             Derive_public_key example_certificate, Check_key_type (RSAKey ''k'') RSAPublicKey],
            Inr (RSAKey ''k''))"
    by (simp add: get_public_key_cases example_get_certificate) (simp add: example_certificate_def)
  have c: "create_verifier_for_pss example_env ''sig'' SHA256 (RSAKey ''k'') example_properties =
      Inr (Some (Verifier (RSAKey ''k'') ''sig'' (With_padding (PSS (MGF1 SHA256) MAX_LENGTH) SHA256)))"
    by (simp add: create_verifier_for_pss_def example_properties_def padding_PSS_def
          call_verifier_def example_env_def)
  show ?thesis
    unfolding get_verifier_present [OF f] by (simp add: s h l k c)
qed

lemma dsa_run:
  "get_verifier dsa_env (REGISTERED_TYPES dsa_env) ''ctx'' (Some example_properties) =
     ([Check_required_fields, Decode_signature ''c2ln'', Resolve_hash_method ''SHA-256'',
       Lookup_key_type RSA_PSS, Keymgr_get ''ctx'' ''cert-1'', Load_der ''der'',
       Verify_certificate dsa_certificate, Derive_public_key dsa_certificate,
       Check_key_type (DSAKey ''k'') RSAPublicKey],
      Inl (SignatureVerificationError KeyTypeMismatch))"
proof -
  have f: "example_properties SIGNATURE = Some ''c2ln''" "example_properties HASH_METHOD = Some ''SHA-256''"
    "example_properties KEY_TYPE = Some RSA_PSS" "example_properties CERT_UUID = Some ''cert-1''"
    by (simp_all add: example_properties_def)
  have s: "get_signature dsa_env ''c2ln'' = Inr ''sig''"
    by (simp add: get_signature_def dsa_env_def example_env_def)
  have h: "get_hash_method ''SHA-256'' = Inr SHA256"
    by (simp add: get_hash_method_def HASH_METHODS_def)
  have l: "lookup (REGISTERED_TYPES dsa_env) RSA_PSS =
      Inr \<lparr>name = RSA_PSS, public_key_type = RSAPublicKey,
            create_verifier = create_verifier_for_pss dsa_env\<rparr>"
    by (simp add: lookup_def REGISTERED_TYPES_rsa_pss)
  have g: "get_certificate dsa_env ''ctx'' ''cert-1'' =
     ([Keymgr_get ''ctx'' ''cert-1'', Load_der ''der'', Verify_certificate dsa_certificate],
      Inr dsa_certificate)"
    by (simp add: get_certificate_cases dsa_env_def example_env_def verify_certificate_def dsa_certificate_def)
  have k: "get_public_key dsa_env ''ctx'' ''cert-1''
             \<lparr>name = RSA_PSS, public_key_type = RSAPublicKey,
              create_verifier = create_verifier_for_pss dsa_env\<rparr> =
           ([Keymgr_get ''ctx'' ''cert-1'', Load_der ''der'', Verify_certificate dsa_certificate,
             Derive_public_key dsa_certificate, Check_key_type (DSAKey ''k'') RSAPublicKey],
            Inl (SignatureVerificationError KeyTypeMismatch))"
    by (simp add: get_public_key_cases g) (simp add: dsa_certificate_def)
  show ?thesis
    unfolding get_verifier_present [OF f] by (simp add: s h l k)
qed

subsection \<open>The key type registry\<close>

text \<open>
  C7. \<open>SignatureKeyType.lookup\<close> raises \<open>SignatureVerificationError\<close> with the
  message ``Invalid signature key type'' for every name that is not a key of the
  table of registered types, and for every name that is a key it returns the stored
  object without raising; after \<open>register\<close> that object holds the name, the public
  key type and the constructor that were registered.
\<close>

theorem lookup_registered_or_unknown:
  "(reg n = None \<longrightarrow> lookup reg n = Inl (SignatureVerificationError (UnknownKeyType n))) \<and>
   (\<forall>d. reg n = Some d \<longrightarrow> lookup reg n = Inr d) \<and>
   lookup (register n t c reg) n = Inr \<lparr>name = n, public_key_type = t, create_verifier = c\<rparr>"
  by (simp add: lookup_def register_def)

theorem lookup_registered_or_unknown_witness:
  "REGISTERED_TYPES example_env ''ECC_SECT571K1'' = None \<and>
   lookup (REGISTERED_TYPES example_env) ''ECC_SECT571K1'' =
     Inl (SignatureVerificationError (UnknownKeyType ''ECC_SECT571K1'')) \<and>
   REGISTERED_TYPES example_env RSA_PSS =
     Some \<lparr>name = RSA_PSS, public_key_type = RSAPublicKey, create_verifier = create_verifier_for_pss example_env\<rparr> \<and>
   lookup (REGISTERED_TYPES example_env) RSA_PSS =
     Inr \<lparr>name = RSA_PSS, public_key_type = RSAPublicKey, create_verifier = create_verifier_for_pss example_env\<rparr>"
proof -
  let ?R = "REGISTERED_TYPES example_env"
  note absent = example_registry_unknown
  note present = example_registry_rsa
  have 1: "lookup ?R ''ECC_SECT571K1'' = Inl (SignatureVerificationError (UnknownKeyType ''ECC_SECT571K1''))"
    using lookup_registered_or_unknown [of ?R "''ECC_SECT571K1''", THEN conjunct1] absent by (rule mp)
  have "\<forall>d. ?R RSA_PSS = Some d \<longrightarrow> lookup ?R RSA_PSS = Inr d"
    by (rule lookup_registered_or_unknown [of ?R RSA_PSS, THEN conjunct2, THEN conjunct1])
  then have 2: "?R RSA_PSS = Some \<lparr>name = RSA_PSS, public_key_type = RSAPublicKey,
                    create_verifier = create_verifier_for_pss example_env\<rparr>
      \<longrightarrow> lookup ?R RSA_PSS = Inr \<lparr>name = RSA_PSS, public_key_type = RSAPublicKey,
                    create_verifier = create_verifier_for_pss example_env\<rparr>"
    by (rule spec)
  from 2 present have 3: "lookup ?R RSA_PSS = Inr \<lparr>name = RSA_PSS, public_key_type = RSAPublicKey,
                    create_verifier = create_verifier_for_pss example_env\<rparr>"
    by (rule mp)
  from absent 1 present 3 show ?thesis by (intro conjI)
qed

text \<open>
  C8. \<open>SignatureKeyType.register\<close> overwrites: after two registrations under one
  name the table maps the name to the object built by the second, exactly as if the
  first had never happened, and every other name keeps its entry.
\<close>

theorem register_last_write_wins:
  "register n t2 c2 (register n t1 c1 reg) n =
     Some \<lparr>name = n, public_key_type = t2, create_verifier = c2\<rparr> \<and>
   lookup (register n t2 c2 (register n t1 c1 reg)) n =
     Inr \<lparr>name = n, public_key_type = t2, create_verifier = c2\<rparr> \<and>
   (\<forall>m. m \<noteq> n \<longrightarrow> register n t2 c2 (register n t1 c1 reg) m = reg m) \<and>
   register n t2 c2 (register n t1 c1 reg) = register n t2 c2 reg"
  by (simp add: register_def lookup_def)

theorem register_last_write_wins_witness:
  "DSA \<noteq> RSA_PSS \<and>
   register RSA_PSS DSAPublicKey (create_verifier_for_dsa example_env)
     (register RSA_PSS RSAPublicKey (create_verifier_for_pss example_env) (REGISTERED_TYPES example_env)) DSA =
   REGISTERED_TYPES example_env DSA \<and>
   register RSA_PSS DSAPublicKey (create_verifier_for_dsa example_env)
     (register RSA_PSS RSAPublicKey (create_verifier_for_pss example_env) (REGISTERED_TYPES example_env)) RSA_PSS =
   Some \<lparr>name = RSA_PSS, public_key_type = DSAPublicKey, create_verifier = create_verifier_for_dsa example_env\<rparr>"
proof -
  let ?R = "register RSA_PSS DSAPublicKey (create_verifier_for_dsa example_env)
     (register RSA_PSS RSAPublicKey (create_verifier_for_pss example_env) (REGISTERED_TYPES example_env))"
  note h = register_last_write_wins [of RSA_PSS DSAPublicKey "create_verifier_for_dsa example_env"
          RSAPublicKey "create_verifier_for_pss example_env" "REGISTERED_TYPES example_env"]
  have d: "DSA \<noteq> RSA_PSS" by simp
  have "\<forall>m. m \<noteq> RSA_PSS \<longrightarrow> ?R m = REGISTERED_TYPES example_env m"
    by (rule h [THEN conjunct2, THEN conjunct2, THEN conjunct1])
  then have "DSA \<noteq> RSA_PSS \<longrightarrow> ?R DSA = REGISTERED_TYPES example_env DSA"
    by (rule spec)
  then have other: "?R DSA = REGISTERED_TYPES example_env DSA"
    using d by (rule mp)
  from d other h [THEN conjunct1] show ?thesis by (intro conjI)
qed

subsection \<open>The validity window of the certificate\<close>

text \<open>
  C3, as the code has it. \<open>verify_certificate\<close> tests the lower bound first: it raises
  ``Certificate is not valid before'' exactly when now is earlier than
  \<open>not_valid_before\<close>; it raises ``Certificate is not valid after'' exactly when
  now is not earlier than \<open>not_valid_before\<close> and is later than \<open>not_valid_after\<close>;
  it returns exactly when now lies between the two bounds, both included. For a
  certificate whose window is not empty (\<open>not_valid_before \<le> not_valid_after\<close>) the
  second test alone decides the second error, and now equal to either bound or
  strictly between them is accepted.
\<close>

theorem verify_certificate_window:
  "(verify_certificate e c = Inl (SignatureVerificationError (CertificateNotYetValid (not_valid_before c)))
      \<longleftrightarrow> utcnow e < not_valid_before c) \<and>
   (verify_certificate e c = Inl (SignatureVerificationError (CertificateExpired (not_valid_after c)))
      \<longleftrightarrow> \<not> utcnow e < not_valid_before c \<and> utcnow e > not_valid_after c) \<and>
   (verify_certificate e c = Inr () \<longleftrightarrow> not_valid_before c \<le> utcnow e \<and> utcnow e \<le> not_valid_after c) \<and>
   (not_valid_before c \<le> not_valid_after c \<longrightarrow>
      (verify_certificate e c = Inl (SignatureVerificationError (CertificateExpired (not_valid_after c)))
         \<longleftrightarrow> utcnow e > not_valid_after c) \<and>
      (utcnow e = not_valid_before c \<or> utcnow e = not_valid_after c \<or>
       (not_valid_before c < utcnow e \<and> utcnow e < not_valid_after c)
         \<longrightarrow> verify_certificate e c = Inr ()))"
  by (auto simp: verify_certificate_def Let_def)

theorem verify_certificate_window_witness:
  "not_valid_before example_certificate \<le> not_valid_after example_certificate \<and>
   utcnow (example_env\<lparr>utcnow := 20\<rparr>) = not_valid_after example_certificate \<and>
   verify_certificate (example_env\<lparr>utcnow := 20\<rparr>) example_certificate = Inr () \<and>
   (verify_certificate (example_env\<lparr>utcnow := 21\<rparr>) example_certificate =
     Inl (SignatureVerificationError (CertificateExpired (not_valid_after example_certificate)))) \<and>
   (verify_certificate (example_env\<lparr>utcnow := 9\<rparr>) example_certificate =
     Inl (SignatureVerificationError (CertificateNotYetValid (not_valid_before example_certificate))))"
proof -
  have le: "not_valid_before example_certificate \<le> not_valid_after example_certificate"
    by (simp add: example_certificate_def)
  have at: "utcnow (example_env\<lparr>utcnow := 20\<rparr>) = not_valid_after example_certificate"
    by (simp add: example_certificate_def)
  have after: "utcnow (example_env\<lparr>utcnow := 21\<rparr>) > not_valid_after example_certificate"
    by (simp add: example_certificate_def)
  have before: "utcnow (example_env\<lparr>utcnow := 9\<rparr>) < not_valid_before example_certificate"
    by (simp add: example_certificate_def)
  have 1: "verify_certificate (example_env\<lparr>utcnow := 20\<rparr>) example_certificate = Inr ()"
    using verify_certificate_window [of "example_env\<lparr>utcnow := 20\<rparr>" example_certificate] le at
    by blast
  have 2: "verify_certificate (example_env\<lparr>utcnow := 21\<rparr>) example_certificate =
     Inl (SignatureVerificationError (CertificateExpired (not_valid_after example_certificate)))"
    using verify_certificate_window [of "example_env\<lparr>utcnow := 21\<rparr>" example_certificate] le after
    by blast
  have 3: "verify_certificate (example_env\<lparr>utcnow := 9\<rparr>) example_certificate =
     Inl (SignatureVerificationError (CertificateNotYetValid (not_valid_before example_certificate)))"
    using verify_certificate_window [of "example_env\<lparr>utcnow := 9\<rparr>" example_certificate] before
    by blast
  from le at 1 2 3 show ?thesis by (intro conjI)
qed

text \<open>
  C3 as it is worded (the second error exactly when now is later than
  \<open>not_valid_after\<close>, success whenever now equals a bound) fails on a certificate
  whose window is empty: at instant 7, later than its \<open>not_valid_after\<close> 5, the error
  is the first one, and at instant 10, equal to its \<open>not_valid_before\<close>, the call
  fails with the second.
\<close>

theorem verify_certificate_inverted_window:
  "utcnow (example_env\<lparr>utcnow := 7\<rparr>) > not_valid_after inverted_certificate \<and>
   verify_certificate (example_env\<lparr>utcnow := 7\<rparr>) inverted_certificate =
     Inl (SignatureVerificationError (CertificateNotYetValid 10)) \<and>
   utcnow (example_env\<lparr>utcnow := 10\<rparr>) = not_valid_before inverted_certificate \<and>
   verify_certificate (example_env\<lparr>utcnow := 10\<rparr>) inverted_certificate =
     Inl (SignatureVerificationError (CertificateExpired 5))"
  by (simp add: verify_certificate_def inverted_certificate_def example_env_def)

subsection \<open>The required image properties\<close>

text \<open>
  C4. When one of the four required properties is absent from the mapping,
  whichever it is, \<open>get_verifier\<close> raises ``Required image properties for signature
  verification do not exist'' before doing anything else. When the four are present,
  \<open>get_verifier\<close> on the table the module builds never raises that error.
\<close>

theorem missing_metadata_iff_field_absent:
  "(SIGNATURE \<notin> dom m \<or> HASH_METHOD \<notin> dom m \<or> KEY_TYPE \<notin> dom m \<or> CERT_UUID \<notin> dom m \<longrightarrow>
      get_verifier e reg ctx (Some m) =
        ([Check_required_fields], Inl (SignatureVerificationError MissingSignatureMetadata))) \<and>
   (SIGNATURE \<in> dom m \<and> HASH_METHOD \<in> dom m \<and> KEY_TYPE \<in> dom m \<and> CERT_UUID \<in> dom m \<longrightarrow>
      snd (get_verifier e (REGISTERED_TYPES e) ctx (Some m)) \<noteq>
        Inl (SignatureVerificationError MissingSignatureMetadata))"
proof (intro conjI impI)
  assume "SIGNATURE \<notin> dom m \<or> HASH_METHOD \<notin> dom m \<or> KEY_TYPE \<notin> dom m \<or> CERT_UUID \<notin> dom m"
  then have "\<not> should_create_verifier (Some m)"
    by (auto simp: should_create_verifier_def)
  then show "get_verifier e reg ctx (Some m) =
        ([Check_required_fields], Inl (SignatureVerificationError MissingSignatureMetadata))"
    by (rule get_verifier_absent)
next
  assume "SIGNATURE \<in> dom m \<and> HASH_METHOD \<in> dom m \<and> KEY_TYPE \<in> dom m \<and> CERT_UUID \<in> dom m"
  then obtain sd hn kn u where
    f: "m SIGNATURE = Some sd" "m HASH_METHOD = Some hn" "m KEY_TYPE = Some kn" "m CERT_UUID = Some u"
    by (auto simp: dom_def)
  show "snd (get_verifier e (REGISTERED_TYPES e) ctx (Some m)) \<noteq>
        Inl (SignatureVerificationError MissingSignatureMetadata)"
    unfolding get_verifier_present [OF f]
    using get_signature_not_missing [of e sd] get_hash_method_not_missing [of hn]
      lookup_not_missing [of "REGISTERED_TYPES e" kn]
      get_public_key_not_missing [of e ctx u] REGISTERED_TYPES_not_missing [of e kn]
    by (auto simp: lookup_def split: sum.splits option.splits)
qed

theorem missing_metadata_iff_field_absent_witness:
  "KEY_TYPE \<notin> dom (example_properties(KEY_TYPE := None)) \<and>
   get_verifier example_env (REGISTERED_TYPES example_env) ''ctx'' (Some (example_properties(KEY_TYPE := None))) =
     ([Check_required_fields], Inl (SignatureVerificationError MissingSignatureMetadata)) \<and>
   (SIGNATURE \<in> dom example_properties \<and> HASH_METHOD \<in> dom example_properties \<and>
    KEY_TYPE \<in> dom example_properties \<and> CERT_UUID \<in> dom example_properties) \<and>
   snd (get_verifier example_env (REGISTERED_TYPES example_env) ''ctx'' (Some example_properties)) \<noteq>
     Inl (SignatureVerificationError MissingSignatureMetadata)"
proof -
  have a: "KEY_TYPE \<notin> dom (example_properties(KEY_TYPE := None))" by simp
  have p: "SIGNATURE \<in> dom example_properties \<and> HASH_METHOD \<in> dom example_properties \<and>
    KEY_TYPE \<in> dom example_properties \<and> CERT_UUID \<in> dom example_properties"
    by (simp add: example_properties_def)
  have 1: "get_verifier example_env (REGISTERED_TYPES example_env) ''ctx''
             (Some (example_properties(KEY_TYPE := None))) =
     ([Check_required_fields], Inl (SignatureVerificationError MissingSignatureMetadata))"
    using missing_metadata_iff_field_absent
            [of "example_properties(KEY_TYPE := None)" example_env "REGISTERED_TYPES example_env" "''ctx''"] a
    by blast
  have 2: "snd (get_verifier example_env (REGISTERED_TYPES example_env) ''ctx'' (Some example_properties)) \<noteq>
     Inl (SignatureVerificationError MissingSignatureMetadata)"
    using missing_metadata_iff_field_absent [of example_properties example_env "REGISTERED_TYPES example_env" "''ctx''"] p
    by blast
  from a 1 p 2 show ?thesis by blast
qed

text \<open>
  C9. \<open>None\<close> in place of the mapping raises nothing else: \<open>should_create_verifier\<close>
  answers \<open>False\<close>, and \<open>get_verifier\<close> behaves exactly as on a mapping that lacks
  a required property, raising the same error after the same single check.
\<close>

theorem get_verifier_none:
  "should_create_verifier None = False \<and>
   get_verifier e reg ctx None =
     ([Check_required_fields], Inl (SignatureVerificationError MissingSignatureMetadata)) \<and>
   (\<forall>m. SIGNATURE \<notin> dom m \<or> HASH_METHOD \<notin> dom m \<or> KEY_TYPE \<notin> dom m \<or> CERT_UUID \<notin> dom m \<longrightarrow>
        get_verifier e reg ctx None = get_verifier e reg ctx (Some m))"
proof -
  have n: "\<not> should_create_verifier None"
    by (simp add: should_create_verifier_def)
  have "\<not> should_create_verifier (Some m)"
    if "SIGNATURE \<notin> dom m \<or> HASH_METHOD \<notin> dom m \<or> KEY_TYPE \<notin> dom m \<or> CERT_UUID \<notin> dom m" for m
    using that by (auto simp: should_create_verifier_def)
  then show ?thesis
    using n by (simp add: get_verifier_absent)
qed

theorem get_verifier_none_witness:
  "CERT_UUID \<notin> dom (example_properties(CERT_UUID := None)) \<and>
   get_verifier example_env (REGISTERED_TYPES example_env) ''ctx'' None =
   get_verifier example_env (REGISTERED_TYPES example_env) ''ctx'' (Some (example_properties(CERT_UUID := None)))"
proof -
  have a: "CERT_UUID \<notin> dom (example_properties(CERT_UUID := None))" by simp
  from get_verifier_none [of example_env "REGISTERED_TYPES example_env" "''ctx''"]
  have "\<forall>m. SIGNATURE \<notin> dom m \<or> HASH_METHOD \<notin> dom m \<or> KEY_TYPE \<notin> dom m \<or> CERT_UUID \<notin> dom m \<longrightarrow>
        get_verifier example_env (REGISTERED_TYPES example_env) ''ctx'' None =
        get_verifier example_env (REGISTERED_TYPES example_env) ''ctx'' (Some m)"
    by (rule conjunct2 [THEN conjunct2])
  with a show ?thesis by blast
qed

subsection \<open>The RSA-PSS constructor\<close>

lemma example_call_verifier:
  "call_verifier example_env k s a = Inr (Some (Verifier k s a))"
  by (simp add: call_verifier_def example_env_def)

lemma example_py_int:
  "py_int example_env ''64'' = Some 64"
  "py_int example_env ''+64'' = Some 64"
  "py_int example_env ''-1'' = Some (- 1)"
  "py_int example_env ''abc'' = None"
  by (simp_all add: example_env_def)

text \<open>
  C5. \<open>create_verifier_for_pss\<close> asks the key for a verifier with PSS padding whose
  mask generation function is MGF1 over the hash method it was given when the
  properties hold no \<open>mask_gen_algorithm\<close> (or hold \<open>MGF1\<close>), and whose salt length
  is \<open>PSS.MAX_LENGTH\<close> when they hold no \<open>pss_salt_length\<close>. A
  \<open>mask_gen_algorithm\<close> that is not in \<open>MASK_GEN_ALGORITHMS\<close> raises ``Invalid
  mask\_gen\_algorithm''. Once the mask generation function is settled, a
  \<open>pss_salt_length\<close> that \<open>int\<close> rejects raises ``Invalid pss\_salt\_length'', and
  one that \<open>int\<close> reads as a number \<open>i\<close> that is zero or greater gives exactly the
  salt length \<open>i\<close>: 64 for a string that \<open>int\<close> reads as 64.
\<close>

theorem create_verifier_for_pss_parameters:
  "((m MASK_GEN_ALG = None \<or> m MASK_GEN_ALG = Some ''MGF1'') \<and> m PSS_SALT_LENGTH = None \<longrightarrow>
      create_verifier_for_pss e s h k m =
        call_verifier e k s (With_padding (PSS (MGF1 h) MAX_LENGTH) h)) \<and>
   (\<forall>v i. (m MASK_GEN_ALG = None \<or> m MASK_GEN_ALG = Some ''MGF1'') \<and>
          m PSS_SALT_LENGTH = Some v \<and> py_int e v = Some i \<and> 0 \<le> i \<longrightarrow>
      create_verifier_for_pss e s h k m =
        call_verifier e k s (With_padding (PSS (MGF1 h) (Salt i)) h)) \<and>
   (\<forall>v. (m MASK_GEN_ALG = None \<or> m MASK_GEN_ALG = Some ''MGF1'') \<and>
        m PSS_SALT_LENGTH = Some v \<and> py_int e v = None \<longrightarrow>
      create_verifier_for_pss e s h k m = Inl (SignatureVerificationError (InvalidParameterValue v))) \<and>
   (\<forall>v. m MASK_GEN_ALG = Some v \<and> v \<noteq> ''MGF1'' \<longrightarrow>
      create_verifier_for_pss e s h k m =
        Inl (SignatureVerificationError (UnsupportedAlgorithmName (Mask_gen_algorithm_name v))))"
  by (auto simp: create_verifier_for_pss_def MASK_GEN_ALGORITHMS_def padding_PSS_def)

theorem create_verifier_for_pss_parameters_witness:
  "create_verifier_for_pss example_env ''sig'' SHA256 (RSAKey ''k'') example_properties =
     Inr (Some (Verifier (RSAKey ''k'') ''sig'' (With_padding (PSS (MGF1 SHA256) MAX_LENGTH) SHA256))) \<and>
   py_int example_env ''64'' = Some 64 \<and>
   create_verifier_for_pss example_env ''sig'' SHA256 (RSAKey ''k'') (example_properties(PSS_SALT_LENGTH \<mapsto> ''64'')) =
     Inr (Some (Verifier (RSAKey ''k'') ''sig'' (With_padding (PSS (MGF1 SHA256) (Salt 64)) SHA256))) \<and>
   py_int example_env ''abc'' = None \<and>
   create_verifier_for_pss example_env ''sig'' SHA256 (RSAKey ''k'') (example_properties(PSS_SALT_LENGTH \<mapsto> ''abc'')) =
     Inl (SignatureVerificationError (InvalidParameterValue ''abc'')) \<and>
   create_verifier_for_pss example_env ''sig'' SHA256 (RSAKey ''k'') (example_properties(MASK_GEN_ALG \<mapsto> ''MGF2'')) =
     Inl (SignatureVerificationError (UnsupportedAlgorithmName (Mask_gen_algorithm_name ''MGF2'')))"
proof -
  let ?f = "create_verifier_for_pss example_env ''sig'' SHA256 (RSAKey ''k'')"
  note call = example_call_verifier [of "RSAKey ''k''" "''sig''"]
  have none: "(example_properties MASK_GEN_ALG = None \<or> example_properties MASK_GEN_ALG = Some ''MGF1'') \<and>
              example_properties PSS_SALT_LENGTH = None"
    by (simp add: example_properties_def)
  have 1: "?f example_properties =
      Inr (Some (Verifier (RSAKey ''k'') ''sig'' (With_padding (PSS (MGF1 SHA256) MAX_LENGTH) SHA256)))"
    using create_verifier_for_pss_parameters
            [of example_properties example_env "''sig''" SHA256 "RSAKey ''k''", THEN conjunct1] none
    by (simp only: call)
  let ?m64 = "example_properties(PSS_SALT_LENGTH \<mapsto> ''64'')"
  have p64: "(?m64 MASK_GEN_ALG = None \<or> ?m64 MASK_GEN_ALG = Some ''MGF1'') \<and>
             ?m64 PSS_SALT_LENGTH = Some ''64'' \<and> py_int example_env ''64'' = Some 64 \<and> (0::int) \<le> 64"
    by (simp add: example_properties_def example_py_int)
  have 2: "?f ?m64 = Inr (Some (Verifier (RSAKey ''k'') ''sig'' (With_padding (PSS (MGF1 SHA256) (Salt 64)) SHA256)))"
    using create_verifier_for_pss_parameters
            [of ?m64 example_env "''sig''" SHA256 "RSAKey ''k''", THEN conjunct2, THEN conjunct1,
             THEN spec, THEN spec, THEN mp, OF p64]
    by (simp only: call)
  let ?mabc = "example_properties(PSS_SALT_LENGTH \<mapsto> ''abc'')"
  have pabc: "(?mabc MASK_GEN_ALG = None \<or> ?mabc MASK_GEN_ALG = Some ''MGF1'') \<and>
             ?mabc PSS_SALT_LENGTH = Some ''abc'' \<and> py_int example_env ''abc'' = None"
    by (simp add: example_properties_def example_py_int)
  have 3: "?f ?mabc = Inl (SignatureVerificationError (InvalidParameterValue ''abc''))"
    by (rule create_verifier_for_pss_parameters
            [of ?mabc example_env "''sig''" SHA256 "RSAKey ''k''", THEN conjunct2, THEN conjunct2,
             THEN conjunct1, THEN spec, THEN mp, OF pabc])
  let ?mgf2 = "example_properties(MASK_GEN_ALG \<mapsto> ''MGF2'')"
  have pmgf: "?mgf2 MASK_GEN_ALG = Some ''MGF2'' \<and> ''MGF2'' \<noteq> ''MGF1''"
    by simp
  have 4: "?f ?mgf2 = Inl (SignatureVerificationError (UnsupportedAlgorithmName (Mask_gen_algorithm_name ''MGF2'')))"
    by (rule create_verifier_for_pss_parameters
            [of ?mgf2 example_env "''sig''" SHA256 "RSAKey ''k''", THEN conjunct2, THEN conjunct2,
             THEN conjunct2, THEN spec, THEN mp, OF pmgf])
  from 1 example_py_int(1) 2 example_py_int(4) 3 4 show ?thesis by (intro conjI)
qed




subsection \<open>The certificate and its key\<close>

text \<open>
  C1. The validity window is checked before the key is taken out of the certificate.
  A certificate that \<open>get_certificate\<close> returns has passed \<open>verify_certificate\<close>:
  now lies inside its window, and the check is the last thing the call did. Whenever
  \<open>get_public_key\<close> or \<open>get_verifier\<close> derives the public key of a certificate,
  that certificate has passed the check, and the check is the operation just before
  the derivation. Whenever \<open>get_verifier\<close> reaches a constructor, the key handed to
  it comes from a certificate that passed the check earlier in the same call.
\<close>

theorem certificate_verified_before_key_is_used:
  "(\<forall>c. snd (get_certificate e ctx u) = Inr c \<longrightarrow>
        verify_certificate e c = Inr () \<and>
        not_valid_before c \<le> utcnow e \<and> utcnow e \<le> not_valid_after c \<and>
        (\<exists>b. fst (get_certificate e ctx u) = [Keymgr_get ctx u, Load_der b, Verify_certificate c])) \<and>
   (\<forall>c. Derive_public_key c \<in> set (fst (get_public_key e ctx u d)) \<longrightarrow>
        verify_certificate e c = Inr () \<and>
        (\<exists>b. fst (get_public_key e ctx u d) =
               [Keymgr_get ctx u, Load_der b, Verify_certificate c, Derive_public_key c,
                Check_key_type (public_key c) (public_key_type d)])) \<and>
   (\<forall>c. Derive_public_key c \<in> set (fst (get_verifier e reg ctx p)) \<longrightarrow>
        verify_certificate e c = Inr () \<and>
        not_valid_before c \<le> utcnow e \<and> utcnow e \<le> not_valid_after c \<and>
        (\<exists>pre post. fst (get_verifier e reg ctx p) =
                       pre @ Verify_certificate c # Derive_public_key c # post)) \<and>
   (\<forall>n k. Create_verifier n k \<in> set (fst (get_verifier e reg ctx p)) \<longrightarrow>
        (\<exists>c. k = public_key c \<and> verify_certificate e c = Inr () \<and>
             not_valid_before c \<le> utcnow e \<and> utcnow e \<le> not_valid_after c \<and>
             (\<exists>pre mid. fst (get_verifier e reg ctx p) =
                          pre @ Verify_certificate c # Derive_public_key c # mid @ [Create_verifier n k])))"
proof (intro conjI allI impI)
  fix c assume a: "snd (get_certificate e ctx u) = Inr c"
  from get_certificate_snd_Inr [OF a]
  show "verify_certificate e c = Inr ()"
    and "\<exists>b. fst (get_certificate e ctx u) = [Keymgr_get ctx u, Load_der b, Verify_certificate c]"
    by auto
  then show "not_valid_before c \<le> utcnow e" "utcnow e \<le> not_valid_after c"
    by (simp_all add: verify_certificate_ok_iff)
next
  fix c assume a: "Derive_public_key c \<in> set (fst (get_public_key e ctx u d))"
  note k = get_public_key_derived [OF a]
  note g = get_certificate_snd_Inr [OF k [THEN conjunct1]]
  from g show "verify_certificate e c = Inr ()" by simp
  from g k show "\<exists>b. fst (get_public_key e ctx u d) =
               [Keymgr_get ctx u, Load_der b, Verify_certificate c, Derive_public_key c,
                Check_key_type (public_key c) (public_key_type d)]"
    by auto
next
  fix c assume a: "Derive_public_key c \<in> set (fst (get_verifier e reg ctx p))"
  from get_verifier_derived [OF a] obtain u' and d' :: SignatureKeyType and pre post where
    r: "snd (get_certificate e ctx u') = Inr c" and
    t: "fst (get_verifier e reg ctx p) =
          pre @ fst (get_certificate e ctx u') @
            Derive_public_key c # Check_key_type (public_key c) (public_key_type d') # post"
    by blast
  from get_certificate_snd_Inr [OF r] obtain b where
    v: "verify_certificate e c = Inr ()" and
    g: "fst (get_certificate e ctx u') = [Keymgr_get ctx u', Load_der b, Verify_certificate c]"
    by blast
  show "verify_certificate e c = Inr ()" by (rule v)
  from v show "not_valid_before c \<le> utcnow e" "utcnow e \<le> not_valid_after c"
    by (simp_all add: verify_certificate_ok_iff)
  have "fst (get_verifier e reg ctx p) =
          (pre @ [Keymgr_get ctx u', Load_der b]) @ Verify_certificate c # Derive_public_key c #
            (Check_key_type (public_key c) (public_key_type d') # post)"
    unfolding t g by simp
  then show "\<exists>pre post. fst (get_verifier e reg ctx p) =
                       pre @ Verify_certificate c # Derive_public_key c # post"
    by blast
next
  fix n k assume a: "Create_verifier n k \<in> set (fst (get_verifier e reg ctx p))"
  from get_verifier_constructed [OF a] obtain m sd hn kn u' d' where
    pk: "snd (get_public_key e ctx u' d') = Inr k" and
    t: "fst (get_verifier e reg ctx p) =
             [Check_required_fields, Decode_signature sd, Resolve_hash_method hn, Lookup_key_type kn]
               @ fst (get_public_key e ctx u' d') @ [Create_verifier (name d') k]" and
    n: "n = name d'"
    by blast
  from get_public_key_Inr [OF pk] obtain c where
    r: "snd (get_certificate e ctx u') = Inr c" and kc: "k = public_key c" and
    tk: "fst (get_public_key e ctx u' d') =
               fst (get_certificate e ctx u') @
                 [Derive_public_key c, Check_key_type (public_key c) (public_key_type d')]"
    by blast
  from get_certificate_snd_Inr [OF r] obtain b where
    v: "verify_certificate e c = Inr ()" and
    g: "fst (get_certificate e ctx u') = [Keymgr_get ctx u', Load_der b, Verify_certificate c]"
    by blast
  have "fst (get_verifier e reg ctx p) =
          ([Check_required_fields, Decode_signature sd, Resolve_hash_method hn, Lookup_key_type kn,
            Keymgr_get ctx u', Load_der b]) @ Verify_certificate c # Derive_public_key c #
            [Check_key_type (public_key c) (public_key_type d')] @ [Create_verifier n k]"
    unfolding t tk g n by simp
  then have "\<exists>pre mid. fst (get_verifier e reg ctx p) =
                          pre @ Verify_certificate c # Derive_public_key c # mid @ [Create_verifier n k]"
    by blast
  with kc v show "\<exists>c. k = public_key c \<and> verify_certificate e c = Inr () \<and>
             not_valid_before c \<le> utcnow e \<and> utcnow e \<le> not_valid_after c \<and>
             (\<exists>pre mid. fst (get_verifier e reg ctx p) =
                          pre @ Verify_certificate c # Derive_public_key c # mid @ [Create_verifier n k])"
    by (auto simp: verify_certificate_ok_iff)
qed


theorem certificate_verified_before_key_is_used_witness:
  "snd (get_certificate example_env ''ctx'' ''cert-1'') = Inr example_certificate \<and>
   Derive_public_key example_certificate \<in>
     set (fst (get_verifier example_env (REGISTERED_TYPES example_env) ''ctx'' (Some example_properties))) \<and>
   Create_verifier RSA_PSS (RSAKey ''k'') \<in>
     set (fst (get_verifier example_env (REGISTERED_TYPES example_env) ''ctx'' (Some example_properties))) \<and>
   verify_certificate example_env example_certificate = Inr () \<and>
   not_valid_before example_certificate \<le> utcnow example_env \<and>
   utcnow example_env \<le> not_valid_after example_certificate"
proof -
  note t = certificate_verified_before_key_is_used
             [of example_env "''ctx''" "''cert-1''"
                 "\<lparr>name = RSA_PSS, public_key_type = RSAPublicKey,
                   create_verifier = create_verifier_for_pss example_env\<rparr>"
                 "REGISTERED_TYPES example_env"
                 "Some example_properties"]
  have g: "snd (get_certificate example_env ''ctx'' ''cert-1'') = Inr example_certificate"
    by (simp add: example_get_certificate)
  have d: "Derive_public_key example_certificate \<in>
     set (fst (get_verifier example_env (REGISTERED_TYPES example_env) ''ctx'' (Some example_properties)))"
    by (simp add: example_run)
  have c: "Create_verifier RSA_PSS (RSAKey ''k'') \<in>
     set (fst (get_verifier example_env (REGISTERED_TYPES example_env) ''ctx'' (Some example_properties)))"
    by (simp add: example_run)
  from t [THEN conjunct2, THEN conjunct2, THEN conjunct1, THEN spec, THEN mp, OF d]
  have "verify_certificate example_env example_certificate = Inr () \<and>
        not_valid_before example_certificate \<le> utcnow example_env \<and>
        utcnow example_env \<le> not_valid_after example_certificate"
    by blast
  with g d c show ?thesis by blast
qed

text \<open>
  C2. The constructor never sees a key of the wrong type. A key that
  \<open>get_public_key\<close> returns is an instance of the public key type of the key type
  object; when the key of the retrieved certificate is not, \<open>get_public_key\<close> raises
  ``Invalid public key type for signature key type''. In \<open>get_verifier\<close> every
  constructor call is on a key that is an instance of the type registered under the
  image's key type name, with the type check immediately before it; on a mismatch the
  call ends with that error and no constructor call is logged. A DSA key under the
  name RSA-PSS is the concrete case.
\<close>

theorem key_type_checked_before_constructor:
  "(\<forall>k. snd (get_public_key e ctx u d) = Inr k \<longrightarrow> isinstance k (public_key_type d)) \<and>
   (\<forall>c. snd (get_certificate e ctx u) = Inr c \<and> \<not> isinstance (public_key c) (public_key_type d) \<longrightarrow>
        snd (get_public_key e ctx u d) = Inl (SignatureVerificationError KeyTypeMismatch)) \<and>
   (\<forall>n k. Create_verifier n k \<in> set (fst (get_verifier e reg ctx p)) \<longrightarrow>
        (\<exists>m kn d'. p = Some m \<and> m KEY_TYPE = Some kn \<and> lookup reg kn = Inr d' \<and> n = name d' \<and>
            isinstance k (public_key_type d') \<and>
            (\<exists>pre. fst (get_verifier e reg ctx p) =
                     pre @ [Check_key_type k (public_key_type d'), Create_verifier n k]))) \<and>
   (\<forall>m sd s hn h kn d' u' c.
        p = Some m \<and> m SIGNATURE = Some sd \<and> get_signature e sd = Inr s \<and>
        m HASH_METHOD = Some hn \<and> get_hash_method hn = Inr h \<and>
        m KEY_TYPE = Some kn \<and> lookup reg kn = Inr d' \<and>
        m CERT_UUID = Some u' \<and> snd (get_certificate e ctx u') = Inr c \<and>
        \<not> isinstance (public_key c) (public_key_type d') \<longrightarrow>
        snd (get_verifier e reg ctx p) = Inl (SignatureVerificationError KeyTypeMismatch) \<and>
        (\<forall>n k. Create_verifier n k \<notin> set (fst (get_verifier e reg ctx p))))"
proof (intro conjI allI impI)
  fix k assume "snd (get_public_key e ctx u d) = Inr k"
  from get_public_key_Inr [OF this] show "isinstance k (public_key_type d)" by blast
next
  fix c assume "snd (get_certificate e ctx u) = Inr c \<and> \<not> isinstance (public_key c) (public_key_type d)"
  then show "snd (get_public_key e ctx u d) = Inl (SignatureVerificationError KeyTypeMismatch)"
    by (simp add: get_public_key_cases)
next
  fix n k assume a: "Create_verifier n k \<in> set (fst (get_verifier e reg ctx p))"
  from get_verifier_constructed [OF a] obtain m sd hn kn u' d' where
    p: "p = Some m" "m KEY_TYPE = Some kn" "lookup reg kn = Inr d'" "n = name d'" and
    pk: "snd (get_public_key e ctx u' d') = Inr k" and
    t: "fst (get_verifier e reg ctx p) =
             [Check_required_fields, Decode_signature sd, Resolve_hash_method hn, Lookup_key_type kn]
               @ fst (get_public_key e ctx u' d') @ [Create_verifier (name d') k]"
    by blast
  from get_public_key_Inr [OF pk] obtain c where
    kc: "k = public_key c" and i: "isinstance k (public_key_type d')" and
    tk: "fst (get_public_key e ctx u' d') =
               fst (get_certificate e ctx u') @
                 [Derive_public_key c, Check_key_type (public_key c) (public_key_type d')]"
    by blast
  have "fst (get_verifier e reg ctx p) =
          ([Check_required_fields, Decode_signature sd, Resolve_hash_method hn, Lookup_key_type kn]
             @ fst (get_certificate e ctx u') @ [Derive_public_key c])
          @ [Check_key_type k (public_key_type d'), Create_verifier n k]"
    unfolding t tk p(4) kc by simp
  then have "\<exists>pre. fst (get_verifier e reg ctx p) =
                     pre @ [Check_key_type k (public_key_type d'), Create_verifier n k]"
    by blast
  with p i show "\<exists>m kn d'. p = Some m \<and> m KEY_TYPE = Some kn \<and> lookup reg kn = Inr d' \<and> n = name d' \<and>
            isinstance k (public_key_type d') \<and>
            (\<exists>pre. fst (get_verifier e reg ctx p) =
                     pre @ [Check_key_type k (public_key_type d'), Create_verifier n k])"
    by blast
next
  fix m sd s hn h kn d' u' c
  assume a: "p = Some m \<and> m SIGNATURE = Some sd \<and> get_signature e sd = Inr s \<and>
        m HASH_METHOD = Some hn \<and> get_hash_method hn = Inr h \<and>
        m KEY_TYPE = Some kn \<and> lookup reg kn = Inr d' \<and>
        m CERT_UUID = Some u' \<and> snd (get_certificate e ctx u') = Inr c \<and>
        \<not> isinstance (public_key c) (public_key_type d')"
  then have f: "m SIGNATURE = Some sd" "m HASH_METHOD = Some hn" "m KEY_TYPE = Some kn" "m CERT_UUID = Some u'"
    by simp_all
  from a have k: "get_public_key e ctx u' d' =
      (fst (get_certificate e ctx u') @
         [Derive_public_key c, Check_key_type (public_key c) (public_key_type d')],
       Inl (SignatureVerificationError KeyTypeMismatch))"
    by (simp add: get_public_key_cases)
  from a have r: "get_verifier e reg ctx p =
      ([Check_required_fields, Decode_signature sd, Resolve_hash_method hn, Lookup_key_type kn] @
         fst (get_certificate e ctx u') @
         [Derive_public_key c, Check_key_type (public_key c) (public_key_type d')],
       Inl (SignatureVerificationError KeyTypeMismatch))"
    by (simp add: get_verifier_present [OF f] k)
  show "snd (get_verifier e reg ctx p) = Inl (SignatureVerificationError KeyTypeMismatch)"
    by (simp add: r)
  fix n k'
  show "Create_verifier n k' \<notin> set (fst (get_verifier e reg ctx p))"
    using get_certificate_events [of "Create_verifier n k'" e ctx u']
    by (auto simp: r)
qed

theorem key_type_checked_before_constructor_witness:
  "snd (get_certificate dsa_env ''ctx'' ''cert-1'') = Inr dsa_certificate \<and>
   public_key dsa_certificate = DSAKey ''k'' \<and>
   lookup (REGISTERED_TYPES dsa_env) RSA_PSS =
     Inr \<lparr>name = RSA_PSS, public_key_type = RSAPublicKey, create_verifier = create_verifier_for_pss dsa_env\<rparr> \<and>
   \<not> isinstance (DSAKey ''k'') RSAPublicKey \<and>
   snd (get_verifier dsa_env (REGISTERED_TYPES dsa_env) ''ctx'' (Some example_properties)) =
     Inl (SignatureVerificationError KeyTypeMismatch) \<and>
   Create_verifier RSA_PSS (RSAKey ''k'') \<in>
     set (fst (get_verifier example_env (REGISTERED_TYPES example_env) ''ctx'' (Some example_properties))) \<and>
   isinstance (RSAKey ''k'') RSAPublicKey"
proof -
  let ?d = "\<lparr>name = RSA_PSS, public_key_type = RSAPublicKey, create_verifier = create_verifier_for_pss dsa_env\<rparr>"
  note t = key_type_checked_before_constructor
             [of dsa_env "''ctx''" "''cert-1''" ?d "REGISTERED_TYPES dsa_env" "Some example_properties"]
  have g: "snd (get_certificate dsa_env ''ctx'' ''cert-1'') = Inr dsa_certificate"
    by (simp add: get_certificate_cases dsa_env_def example_env_def verify_certificate_def dsa_certificate_def)
  have pk: "public_key dsa_certificate = DSAKey ''k''"
    by (simp add: dsa_certificate_def)
  have l: "lookup (REGISTERED_TYPES dsa_env) RSA_PSS = Inr ?d"
    by (simp add: lookup_def REGISTERED_TYPES_rsa_pss)
  have ni: "\<not> isinstance (DSAKey ''k'') RSAPublicKey" by simp
  have hyp: "Some example_properties = Some example_properties \<and>
        example_properties SIGNATURE = Some ''c2ln'' \<and> get_signature dsa_env ''c2ln'' = Inr ''sig'' \<and>
        example_properties HASH_METHOD = Some ''SHA-256'' \<and> get_hash_method ''SHA-256'' = Inr SHA256 \<and>
        example_properties KEY_TYPE = Some RSA_PSS \<and> lookup (REGISTERED_TYPES dsa_env) RSA_PSS = Inr ?d \<and>
        example_properties CERT_UUID = Some ''cert-1'' \<and>
        snd (get_certificate dsa_env ''ctx'' ''cert-1'') = Inr dsa_certificate \<and>
        \<not> isinstance (public_key dsa_certificate) (public_key_type ?d)"
    using g l pk
    by (simp add: example_properties_def get_signature_def dsa_env_def example_env_def
          get_hash_method_def HASH_METHODS_def)
  from t [THEN conjunct2, THEN conjunct2, THEN conjunct2, THEN spec, THEN spec, THEN spec, THEN spec,
          THEN spec, THEN spec, THEN spec, THEN spec, THEN spec, THEN mp, OF hyp]
  have 1: "snd (get_verifier dsa_env (REGISTERED_TYPES dsa_env) ''ctx'' (Some example_properties)) =
     Inl (SignatureVerificationError KeyTypeMismatch)"
    by (rule conjunct1)
  note t' = key_type_checked_before_constructor
             [of example_env "''ctx''" "''cert-1''" ?d "REGISTERED_TYPES example_env" "Some example_properties"]
  have c: "Create_verifier RSA_PSS (RSAKey ''k'') \<in>
     set (fst (get_verifier example_env (REGISTERED_TYPES example_env) ''ctx'' (Some example_properties)))"
    by (simp add: example_run)
  from t' [THEN conjunct2, THEN conjunct2, THEN conjunct1, THEN spec, THEN spec, THEN mp, OF c]
  obtain m kn d' where "Some example_properties = Some m" "m KEY_TYPE = Some kn"
     "lookup (REGISTERED_TYPES example_env) kn = Inr d'" "isinstance (RSAKey ''k'') (public_key_type d')"
    by blast
  then have 2: "isinstance (RSAKey ''k'') RSAPublicKey"
    by (auto simp: example_properties_def lookup_def REGISTERED_TYPES_rsa_pss)
  from g pk l ni 1 c 2 show ?thesis by blast
qed

subsection \<open>The order of the steps\<close>

text \<open>
  C6. The operations of one \<open>get_verifier\<close> call, read as steps, always form an
  initial part of the sequence fields present, signature decode, hash resolve, key
  type resolve, certificate fetch and validation, key type match, verifier
  construction; a call that returns a verifier ran the whole sequence. A step that
  fails ends the call with its error and the log stops there. The key manager is
  contacted only in calls where the properties were complete, the signature decoded,
  the hash method resolved and the key type was registered, and then with the
  context of the call and the certificate id of the properties: when any of the four
  fails, it is not contacted.
\<close>

theorem get_verifier_step_order:
  "prefix (map step_of (fst (get_verifier e reg ctx p))) full_order \<and>
   (\<forall>v. snd (get_verifier e reg ctx p) = Inr v \<longrightarrow>
        map step_of (fst (get_verifier e reg ctx p)) = full_order) \<and>
   (\<not> should_create_verifier p \<longrightarrow>
      get_verifier e reg ctx p =
        ([Check_required_fields], Inl (SignatureVerificationError MissingSignatureMetadata))) \<and>
   (\<forall>m sd hn kn u.
      p = Some m \<and> m SIGNATURE = Some sd \<and> m HASH_METHOD = Some hn \<and> m KEY_TYPE = Some kn \<and>
      m CERT_UUID = Some u \<longrightarrow>
      (\<forall>x. get_signature e sd = Inl x \<longrightarrow>
         get_verifier e reg ctx p = ([Check_required_fields, Decode_signature sd], Inl x)) \<and>
      (\<forall>s x. get_signature e sd = Inr s \<and> get_hash_method hn = Inl x \<longrightarrow>
         get_verifier e reg ctx p =
           ([Check_required_fields, Decode_signature sd, Resolve_hash_method hn], Inl x)) \<and>
      (\<forall>s h x. get_signature e sd = Inr s \<and> get_hash_method hn = Inr h \<and> lookup reg kn = Inl x \<longrightarrow>
         get_verifier e reg ctx p =
           ([Check_required_fields, Decode_signature sd, Resolve_hash_method hn, Lookup_key_type kn],
            Inl x)) \<and>
      (\<forall>s h d x. get_signature e sd = Inr s \<and> get_hash_method hn = Inr h \<and> lookup reg kn = Inr d \<and>
          snd (get_certificate e ctx u) = Inl x \<longrightarrow>
         get_verifier e reg ctx p =
           ([Check_required_fields, Decode_signature sd, Resolve_hash_method hn, Lookup_key_type kn]
              @ fst (get_certificate e ctx u), Inl x)) \<and>
      (\<forall>s h d c. get_signature e sd = Inr s \<and> get_hash_method hn = Inr h \<and> lookup reg kn = Inr d \<and>
          snd (get_certificate e ctx u) = Inr c \<and>
          \<not> isinstance (public_key c) (public_key_type d) \<longrightarrow>
         get_verifier e reg ctx p =
           ([Check_required_fields, Decode_signature sd, Resolve_hash_method hn, Lookup_key_type kn]
              @ fst (get_certificate e ctx u)
              @ [Derive_public_key c, Check_key_type (public_key c) (public_key_type d)],
            Inl (SignatureVerificationError KeyTypeMismatch)))) \<and>
   (\<forall>c u. Keymgr_get c u \<in> set (fst (get_verifier e reg ctx p)) \<longrightarrow>
      c = ctx \<and>
      (\<exists>m sd s hn h kn d. p = Some m \<and> m SIGNATURE = Some sd \<and> get_signature e sd = Inr s \<and>
          m HASH_METHOD = Some hn \<and> get_hash_method hn = Inr h \<and>
          m KEY_TYPE = Some kn \<and> lookup reg kn = Inr d \<and> m CERT_UUID = Some u)) \<and>
   (\<not> should_create_verifier p \<or>
    (\<exists>sd x. getitem p SIGNATURE = Inr sd \<and> get_signature e sd = Inl x) \<or>
    (\<exists>hn x. getitem p HASH_METHOD = Inr hn \<and> get_hash_method hn = Inl x) \<or>
    (\<exists>kn x. getitem p KEY_TYPE = Inr kn \<and> lookup reg kn = Inl x) \<longrightarrow>
      (\<forall>c u. Keymgr_get c u \<notin> set (fst (get_verifier e reg ctx p))))"
proof (intro conjI)
  show "prefix (map step_of (fst (get_verifier e reg ctx p))) full_order"
    by (rule get_verifier_steps_prefix)
  show "\<forall>v. snd (get_verifier e reg ctx p) = Inr v \<longrightarrow>
        map step_of (fst (get_verifier e reg ctx p)) = full_order"
    by (blast intro: get_verifier_Inr)
  show "\<not> should_create_verifier p \<longrightarrow>
      get_verifier e reg ctx p =
        ([Check_required_fields], Inl (SignatureVerificationError MissingSignatureMetadata))"
    by (simp add: get_verifier_absent)
  show "\<forall>m sd hn kn u.
      p = Some m \<and> m SIGNATURE = Some sd \<and> m HASH_METHOD = Some hn \<and> m KEY_TYPE = Some kn \<and>
      m CERT_UUID = Some u \<longrightarrow>
      (\<forall>x. get_signature e sd = Inl x \<longrightarrow>
         get_verifier e reg ctx p = ([Check_required_fields, Decode_signature sd], Inl x)) \<and>
      (\<forall>s x. get_signature e sd = Inr s \<and> get_hash_method hn = Inl x \<longrightarrow>
         get_verifier e reg ctx p =
           ([Check_required_fields, Decode_signature sd, Resolve_hash_method hn], Inl x)) \<and>
      (\<forall>s h x. get_signature e sd = Inr s \<and> get_hash_method hn = Inr h \<and> lookup reg kn = Inl x \<longrightarrow>
         get_verifier e reg ctx p =
           ([Check_required_fields, Decode_signature sd, Resolve_hash_method hn, Lookup_key_type kn],
            Inl x)) \<and>
      (\<forall>s h d x. get_signature e sd = Inr s \<and> get_hash_method hn = Inr h \<and> lookup reg kn = Inr d \<and>
          snd (get_certificate e ctx u) = Inl x \<longrightarrow>
         get_verifier e reg ctx p =
           ([Check_required_fields, Decode_signature sd, Resolve_hash_method hn, Lookup_key_type kn]
              @ fst (get_certificate e ctx u), Inl x)) \<and>
      (\<forall>s h d c. get_signature e sd = Inr s \<and> get_hash_method hn = Inr h \<and> lookup reg kn = Inr d \<and>
          snd (get_certificate e ctx u) = Inr c \<and>
          \<not> isinstance (public_key c) (public_key_type d) \<longrightarrow>
         get_verifier e reg ctx p =
           ([Check_required_fields, Decode_signature sd, Resolve_hash_method hn, Lookup_key_type kn]
              @ fst (get_certificate e ctx u)
              @ [Derive_public_key c, Check_key_type (public_key c) (public_key_type d)],
            Inl (SignatureVerificationError KeyTypeMismatch)))"
  proof (intro allI impI, elim conjE)
    fix m sd hn kn u
    assume p: "p = Some m" and
      f: "m SIGNATURE = Some sd" "m HASH_METHOD = Some hn" "m KEY_TYPE = Some kn" "m CERT_UUID = Some u"
    show "(\<forall>x. get_signature e sd = Inl x \<longrightarrow>
         get_verifier e reg ctx p = ([Check_required_fields, Decode_signature sd], Inl x)) \<and>
      (\<forall>s x. get_signature e sd = Inr s \<and> get_hash_method hn = Inl x \<longrightarrow>
         get_verifier e reg ctx p =
           ([Check_required_fields, Decode_signature sd, Resolve_hash_method hn], Inl x)) \<and>
      (\<forall>s h x. get_signature e sd = Inr s \<and> get_hash_method hn = Inr h \<and> lookup reg kn = Inl x \<longrightarrow>
         get_verifier e reg ctx p =
           ([Check_required_fields, Decode_signature sd, Resolve_hash_method hn, Lookup_key_type kn],
            Inl x)) \<and>
      (\<forall>s h d x. get_signature e sd = Inr s \<and> get_hash_method hn = Inr h \<and> lookup reg kn = Inr d \<and>
          snd (get_certificate e ctx u) = Inl x \<longrightarrow>
         get_verifier e reg ctx p =
           ([Check_required_fields, Decode_signature sd, Resolve_hash_method hn, Lookup_key_type kn]
              @ fst (get_certificate e ctx u), Inl x)) \<and>
      (\<forall>s h d c. get_signature e sd = Inr s \<and> get_hash_method hn = Inr h \<and> lookup reg kn = Inr d \<and>
          snd (get_certificate e ctx u) = Inr c \<and>
          \<not> isinstance (public_key c) (public_key_type d) \<longrightarrow>
         get_verifier e reg ctx p =
           ([Check_required_fields, Decode_signature sd, Resolve_hash_method hn, Lookup_key_type kn]
              @ fst (get_certificate e ctx u)
              @ [Derive_public_key c, Check_key_type (public_key c) (public_key_type d)],
            Inl (SignatureVerificationError KeyTypeMismatch)))"
      unfolding p get_verifier_present [OF f]
      by (simp add: get_public_key_cases)
  qed
  show k: "\<forall>c u. Keymgr_get c u \<in> set (fst (get_verifier e reg ctx p)) \<longrightarrow>
      c = ctx \<and>
      (\<exists>m sd s hn h kn d. p = Some m \<and> m SIGNATURE = Some sd \<and> get_signature e sd = Inr s \<and>
          m HASH_METHOD = Some hn \<and> get_hash_method hn = Inr h \<and>
          m KEY_TYPE = Some kn \<and> lookup reg kn = Inr d \<and> m CERT_UUID = Some u)"
    by (intro allI impI) (rule get_verifier_keymgr)
  show "\<not> should_create_verifier p \<or>
    (\<exists>sd x. getitem p SIGNATURE = Inr sd \<and> get_signature e sd = Inl x) \<or>
    (\<exists>hn x. getitem p HASH_METHOD = Inr hn \<and> get_hash_method hn = Inl x) \<or>
    (\<exists>kn x. getitem p KEY_TYPE = Inr kn \<and> lookup reg kn = Inl x) \<longrightarrow>
      (\<forall>c u. Keymgr_get c u \<notin> set (fst (get_verifier e reg ctx p)))"
  proof (intro impI allI notI)
    fix c u
    assume a: "\<not> should_create_verifier p \<or>
      (\<exists>sd x. getitem p SIGNATURE = Inr sd \<and> get_signature e sd = Inl x) \<or>
      (\<exists>hn x. getitem p HASH_METHOD = Inr hn \<and> get_hash_method hn = Inl x) \<or>
      (\<exists>kn x. getitem p KEY_TYPE = Inr kn \<and> lookup reg kn = Inl x)"
    assume "Keymgr_get c u \<in> set (fst (get_verifier e reg ctx p))"
    from get_verifier_keymgr [OF this] obtain m sd s hn h kn d where
      "p = Some m" "m SIGNATURE = Some sd" "get_signature e sd = Inr s"
      "m HASH_METHOD = Some hn" "get_hash_method hn = Inr h"
      "m KEY_TYPE = Some kn" "lookup reg kn = Inr d" "m CERT_UUID = Some u"
      by blast
    with a show False
      by (auto simp: should_create_verifier_def getitem_def dom_def)
  qed
qed

theorem get_verifier_step_order_witness:
  "snd (get_verifier example_env (REGISTERED_TYPES example_env) ''ctx'' (Some example_properties)) =
     Inr (Verifier (RSAKey ''k'') ''sig'' (With_padding (PSS (MGF1 SHA256) MAX_LENGTH) SHA256)) \<and>
   map step_of (fst (get_verifier example_env (REGISTERED_TYPES example_env) ''ctx'' (Some example_properties))) =
     full_order \<and>
   getitem (Some (example_properties(HASH_METHOD \<mapsto> ''MD5''))) HASH_METHOD = Inr ''MD5'' \<and>
   get_hash_method ''MD5'' =
     Inl (SignatureVerificationError (UnsupportedAlgorithmName (Hash_method_name ''MD5''))) \<and>
   Keymgr_get ''ctx'' ''cert-1'' \<notin>
     set (fst (get_verifier example_env (REGISTERED_TYPES example_env) ''ctx''
                 (Some (example_properties(HASH_METHOD \<mapsto> ''MD5''))))) \<and>
   Keymgr_get ''ctx'' ''cert-1'' \<in>
     set (fst (get_verifier example_env (REGISTERED_TYPES example_env) ''ctx'' (Some example_properties)))"
proof -
  let ?R = "REGISTERED_TYPES example_env"
  let ?bad = "Some (example_properties(HASH_METHOD \<mapsto> ''MD5''))"
  have r: "snd (get_verifier example_env ?R ''ctx'' (Some example_properties)) =
     Inr (Verifier (RSAKey ''k'') ''sig'' (With_padding (PSS (MGF1 SHA256) MAX_LENGTH) SHA256))"
    by (simp add: example_run)
  from get_verifier_step_order [of example_env ?R "''ctx''" "Some example_properties",
         THEN conjunct2, THEN conjunct1, THEN spec, THEN mp, OF r]
  have 1: "map step_of (fst (get_verifier example_env ?R ''ctx'' (Some example_properties))) = full_order" .
  have g: "getitem ?bad HASH_METHOD = Inr ''MD5''"
    by (simp add: getitem_def)
  have h: "get_hash_method ''MD5'' =
     Inl (SignatureVerificationError (UnsupportedAlgorithmName (Hash_method_name ''MD5'')))"
    by (simp add: get_hash_method_def HASH_METHODS_def)
  from g h have hyp: "\<not> should_create_verifier ?bad \<or>
    (\<exists>sd x. getitem ?bad SIGNATURE = Inr sd \<and> get_signature example_env sd = Inl x) \<or>
    (\<exists>hn x. getitem ?bad HASH_METHOD = Inr hn \<and> get_hash_method hn = Inl x) \<or>
    (\<exists>kn x. getitem ?bad KEY_TYPE = Inr kn \<and> lookup ?R kn = Inl x)"
    by blast
  from get_verifier_step_order [of example_env ?R "''ctx''" ?bad,
         THEN conjunct2, THEN conjunct2, THEN conjunct2, THEN conjunct2, THEN conjunct2, THEN mp, OF hyp]
  have 2: "Keymgr_get ''ctx'' ''cert-1'' \<notin> set (fst (get_verifier example_env ?R ''ctx'' ?bad))"
    by blast
  have 3: "Keymgr_get ''ctx'' ''cert-1'' \<in>
     set (fst (get_verifier example_env ?R ''ctx'' (Some example_properties)))"
    by (simp add: example_run)
  from r 1 g h 2 3 show ?thesis by blast
qed

end
